theory Spec2Isabelle
  imports Main "HOL-Library.Sublist" "HOL-Library.AList"
begin

text \<open>
  A model of the request path of the KRS viewer, a Cloudflare Worker written in
  TypeScript: the cache of per-user server instances and the JSON-RPC dispatcher of
  \<open>src/api-key-handler.ts\<close>, the lane selection of the entry point, and the registry
  client with its transformation and its response cache. Every function below is the
  source function of the same name, with what it reads from outside (the clock, the
  network, the platform's stores) passed in as arguments and what it writes (the cache,
  the log) passed out as results; a \<open>throw\<close> is the left summand of the result.
\<close>

section \<open>Structured log output\<close>

text \<open>
  Every \<open>logger.info\<close>/\<open>logger.warn\<close>/\<open>logger.error\<close> call of
  \<open>api-key-handler.ts\<close> becomes one event value; a function that logs returns the
  events it emitted, in order.
\<close>

datatype log_event =
    Lru_cache_eviction string nat       \<comment> \<open>\<open>evicted_user_id\<close>, \<open>cache_size\<close>\<close>
  | Auth_attempt_failed                 \<comment> \<open>\<open>success: false\<close>\<close>
  | Auth_attempt_ok string string       \<comment> \<open>\<open>user_email\<close>, \<open>user_id\<close>\<close>
  | Server_error string                 \<comment> \<open>\<open>error\<close> text\<close>

section \<open>The LRU cache of \<open>api-key-handler.ts\<close>\<close>

text \<open>
  \<open>class LRUCache<K, V>\<close> with \<open>K = string\<close>. The JavaScript \<open>Map\<close> iterates in
  insertion order, keeps the position of a key that is set again and holds every key
  once: it is an association list, \<open>Map.set\<close> is \<^const>\<open>AList.update\<close> and
  \<open>Map.delete\<close> is \<^const>\<open>AList.delete\<close>. \<open>Date.now()\<close> is an argument \<open>now\<close>
  (integer milliseconds). \<open>maxSize\<close> is a \<open>number\<close>, here an integer of any sign.
\<close>

record 'v entry =
  entry_value :: 'v
  lastAccessed :: int

record 'v LRUCache =
  cache :: "(string \<times> 'v entry) list"
  maxSize :: int

definition new_LRUCache :: "int \<Rightarrow> 'v LRUCache" where
  "new_LRUCache n = \<lparr>cache = [], maxSize = n\<rparr>"

definition lru_has :: "'v LRUCache \<Rightarrow> string \<Rightarrow> bool" where
  "lru_has c key = (map_of (cache c) key \<noteq> None)"

definition lru_size :: "'v LRUCache \<Rightarrow> nat" where
  "lru_size c = length (cache c)"

definition lru_get :: "int \<Rightarrow> string \<Rightarrow> 'v LRUCache \<Rightarrow> 'v option \<times> 'v LRUCache" where
  "lru_get now key c =
     (case map_of (cache c) key of
        Some e \<Rightarrow> (Some (entry_value e),
                   c\<lparr>cache := AList.update key (e\<lparr>lastAccessed := now\<rparr>) (cache c)\<rparr>)
      | None \<Rightarrow> (None, c))"

text \<open>
  The scan of \<open>evictLRU\<close>. \<open>oldestTime\<close> starts at \<open>Infinity\<close>, which is \<open>None\<close>
  here: every timestamp is below it.
\<close>

fun below :: "int \<Rightarrow> int option \<Rightarrow> bool" where
  "below t None = True"
| "below t (Some u) = (t < u)"

fun oldest :: "(string \<times> 'v entry) list \<Rightarrow> string option \<times> int option
                \<Rightarrow> string option \<times> int option" where
  "oldest [] acc = acc"
| "oldest ((key, e) # rest) (oldestKey, oldestTime) =
     (if below (lastAccessed e) oldestTime
      then oldest rest (Some key, Some (lastAccessed e))
      else oldest rest (oldestKey, oldestTime))"

definition evictLRU :: "'v LRUCache \<Rightarrow> 'v LRUCache \<times> log_event list" where
  "evictLRU c =
     (case fst (oldest (cache c) (None, None)) of
        None \<Rightarrow> (c, [])
      | Some oldestKey \<Rightarrow>
          (c\<lparr>cache := AList.delete oldestKey (cache c)\<rparr>,
           [Lru_cache_eviction oldestKey (length (cache c))]))"

definition lru_set :: "int \<Rightarrow> string \<Rightarrow> 'v \<Rightarrow> 'v LRUCache \<Rightarrow> 'v LRUCache \<times> log_event list" where
  "lru_set now key v c =
     (let (c1, evs) = (if maxSize c \<le> int (length (cache c)) \<and> \<not> lru_has c key
                       then evictLRU c else (c, []))
      in (c1\<lparr>cache := AList.update key \<lparr>entry_value = v, lastAccessed = now\<rparr> (cache c1)\<rparr>,
          evs))"






text \<open>The state of the scan after the entries \<open>seen\<close>.\<close>

definition scanned :: "(string \<times> 'v entry) list \<Rightarrow> string option \<times> int option \<Rightarrow> bool" where
  "scanned seen acc =
     (case acc of
        (None, None) \<Rightarrow> seen = []
      | (Some k, Some t) \<Rightarrow>
          (\<exists>e. map_of seen k = Some e \<and> lastAccessed e = t
               \<and> (\<forall>(k', e') \<in> set seen. t \<le> lastAccessed e'))
      | _ \<Rightarrow> False)"


section \<open>JavaScript values\<close>

text \<open>
  The request bodies and the registry payload are parsed JSON, and the source reads them
  without checking their shape, so they are modelled as untyped JavaScript values. A
  \<open>Number\<close> is held as the text \<open>String()\<close> gives for it (\<open>JNum ''3''\<close>,
  \<open>JNum ''-32600''\<close>), a string as its UTF-8 bytes, an object as the list of its own
  properties in insertion order.
\<close>

datatype jsval =
    JUndefined
  | JNull
  | JBool bool
  | JNum string
  | JStr string
  | JArr "jsval list"
  | JObj "(string \<times> jsval) list"

text \<open>
  What a \<open>throw\<close> carries: a \<open>TypeError\<close> raised by the engine itself, with the message
  the engine gives it, an \<open>Error\<close> with its message, or any other value. The messages
  are those of V8, the engine of the platform: for a property read of \<open>undefined\<close> or
  \<open>null\<close>, for a call of something that is not a function (the engine prints the
  expression that was called), and for an object that has no primitive value.
\<close>

datatype thrown = TypeError string | Error string | Thrown jsval

definition cannot_read :: "string \<Rightarrow> string \<Rightarrow> thrown" where
  "cannot_read what k =
     TypeError (''Cannot read properties of '' @ what @ '' (reading '' @ [CHR 0x27] @ k
                @ [CHR 0x27] @ '')'')"

definition not_a_function :: "string \<Rightarrow> string \<Rightarrow> thrown" where
  "not_a_function receiver m = TypeError (receiver @ ''.'' @ m @ '' is not a function'')"

definition not_primitive :: thrown where
  "not_primitive = TypeError ''Cannot convert object to primitive value''"

definition then_do :: "thrown + 'a \<Rightarrow> ('a \<Rightarrow> thrown + 'b) \<Rightarrow> thrown + 'b" where
  "then_do m f = (case m of Inl e \<Rightarrow> Inl e | Inr x \<Rightarrow> f x)"

fun truthy :: "jsval \<Rightarrow> bool" where
  "truthy JUndefined = False"
| "truthy JNull = False"
| "truthy (JBool b) = b"
| "truthy (JNum s) = (s \<noteq> ''0'' \<and> s \<noteq> ''NaN'')"
| "truthy (JStr s) = (s \<noteq> [])"
| "truthy (JArr xs) = True"
| "truthy (JObj kvs) = True"

fun nullish :: "jsval \<Rightarrow> bool" where
  "nullish JUndefined = True"
| "nullish JNull = True"
| "nullish v = False"

text \<open>\<open>a || b\<close> and \<open>a && b\<close>, both operands already evaluated.\<close>

definition or_else :: "jsval \<Rightarrow> jsval \<Rightarrow> jsval" where
  "or_else a b = (if truthy a then a else b)"

definition and_also :: "jsval \<Rightarrow> jsval \<Rightarrow> jsval" where
  "and_also a b = (if truthy a then b else a)"

text \<open>
  \<open>v.k\<close> raises a \<open>TypeError\<close> on \<open>undefined\<close> and \<open>null\<close>; \<open>v?.k\<close> gives
  \<open>undefined\<close> there. On an object both read the own property, on any other value they
  give \<open>undefined\<close>: none of the property names the source reads is inherited.
\<close>

definition own_prop :: "(string \<times> jsval) list \<Rightarrow> string \<Rightarrow> jsval" where
  "own_prop kvs k = (case map_of kvs k of None \<Rightarrow> JUndefined | Some x \<Rightarrow> x)"

fun getProp :: "jsval \<Rightarrow> string \<Rightarrow> thrown + jsval" where
  "getProp JUndefined k = Inl (cannot_read ''undefined'' k)"
| "getProp JNull k = Inl (cannot_read ''null'' k)"
| "getProp (JObj kvs) k = Inr (own_prop kvs k)"
| "getProp v k = Inr JUndefined"

fun optProp :: "jsval \<Rightarrow> string \<Rightarrow> jsval" where
  "optProp (JObj kvs) k = own_prop kvs k"
| "optProp v k = JUndefined"

text \<open>
  The conversion to a string that a template literal applies to each \<open>${...}\<close>. An array
  joins its elements with commas, \<open>undefined\<close> and \<open>null\<close> elements as empty text. An
  object gives \<open>[object Object]\<close>, unless it has an own property \<open>toString\<close>: a parsed
  JSON value is never callable, and the conversion raises a \<open>TypeError\<close>.
\<close>

fun toStr :: "jsval \<Rightarrow> thrown + string"
  and toStr_join :: "jsval list \<Rightarrow> thrown + string" where
  "toStr JUndefined = Inr ''undefined''"
| "toStr JNull = Inr ''null''"
| "toStr (JBool b) = Inr (if b then ''true'' else ''false'')"
| "toStr (JNum s) = Inr s"
| "toStr (JStr s) = Inr s"
| "toStr (JArr xs) = toStr_join xs"
| "toStr (JObj kvs) =
     (if map_of kvs ''toString'' = None then Inr ''[object Object]'' else Inl not_primitive)"
| "toStr_join [] = Inr []"
| "toStr_join (x # xs) =
     (case (if nullish x then Inr [] else toStr x) of
        Inl e \<Rightarrow> Inl e
      | Inr s \<Rightarrow>
          (if xs = [] then Inr s
           else (case toStr_join xs of Inl e \<Rightarrow> Inl e | Inr t \<Rightarrow> Inr (s @ '','' @ t))))"

text \<open>
  \<open>String.prototype.replace\<close> with a string pattern replaces the first occurrence only.
  The replacements the source passes (\<open>""\<close> and \<open>"."\<close>) hold no \<open>$\<close> pattern.
\<close>

fun replace :: "string \<Rightarrow> string \<Rightarrow> string \<Rightarrow> string" where
  "replace pat rep [] = (if pat = [] then rep else [])"
| "replace pat rep (c # cs) =
     (if prefix pat (c # cs) then rep @ drop (length pat) (c # cs)
      else c # replace pat rep cs)"

text \<open>
  The receiver of \<open>.filter\<close> and \<open>.map\<close>, with the expression it is written as and the
  name of the method: on anything but an array the call raises.
\<close>

fun asArray :: "string \<Rightarrow> string \<Rightarrow> jsval \<Rightarrow> thrown + jsval list" where
  "asArray receiver m (JArr xs) = Inr xs"
| "asArray receiver m JUndefined = Inl (cannot_read ''undefined'' m)"
| "asArray receiver m JNull = Inl (cannot_read ''null'' m)"
| "asArray receiver m v = Inl (not_a_function receiver m)"

text \<open>\<open>Array.prototype.map\<close> with a callback that may raise: the first raise ends it.\<close>

fun map_raising :: "('a \<Rightarrow> thrown + 'b) \<Rightarrow> 'a list \<Rightarrow> thrown + 'b list" where
  "map_raising f [] = Inr []"
| "map_raising f (x # xs) =
     (case f x of
        Inl e \<Rightarrow> Inl e
      | Inr y \<Rightarrow> (case map_raising f xs of Inl e \<Rightarrow> Inl e | Inr ys \<Rightarrow> Inr (y # ys)))"


section \<open>The registry client: \<open>KrsClient.transformResponse\<close>\<close>

text \<open>
  \<open>CompanyData\<close>, the record the transformation returns. The shape is fixed; a leaf that
  the source copies from the payload unchanged is whatever value the payload held there.
  \<open>capital\<close> is an object or \<open>null\<close>, which is \<open>None\<close>.
\<close>

record Address =
  city :: jsval
  voivodeship :: jsval
  street :: jsval
  building :: jsval
  unit :: jsval
  postalCode :: jsval
  country :: jsval

record Capital =
  cap_value :: string
  currency :: jsval

record Shareholder =
  sh_name :: string
  shares :: jsval

record Member =
  m_name :: string
  m_function :: jsval

record Representation =
  organName :: jsval
  rep_method :: jsval
  members :: "Member list"

record Activity =
  code :: string
  description :: jsval

record CompanyData =
  name :: jsval
  krs :: jsval
  nip :: jsval
  regon :: jsval
  legalForm :: jsval
  address :: Address
  capital :: "Capital option"
  shareholders :: "Shareholder list"
  representation :: Representation
  mainActivity :: "Activity list"
  otherActivities :: "Activity list"
  registrationDate :: jsval
  lastUpdate :: jsval
  dataTimestamp :: jsval

text \<open>\<open>buildPkdCode\<close>: three sub-fields joined by dots.\<close>

definition buildPkdCode :: "jsval \<Rightarrow> thrown + string" where
  "buildPkdCode item =
     then_do (getProp item ''kodDzial'') (\<lambda>d.
     then_do (toStr d) (\<lambda>sd.
     then_do (getProp item ''kodKlasa'') (\<lambda>k.
     then_do (toStr k) (\<lambda>sk.
     then_do (getProp item ''kodPodklasa'') (\<lambda>p.
     then_do (toStr p) (\<lambda>sp.
     Inr (sd @ ''.'' @ sk @ ''.'' @ sp)))))))"

text \<open>
  The callback of both \<open>.filter\<close> calls, \<open>s?.imiona?.imie && s?.nazwisko?.nazwisko\<close>,
  and the \<open>name\<close> that both \<open>.map\<close> calls build,
  \<open>`${s.imiona.imie} ${s.nazwisko.nazwisko}`\<close>.
\<close>

definition has_names :: "jsval \<Rightarrow> bool" where
  "has_names s =
     truthy (and_also (optProp (optProp s ''imiona'') ''imie'')
                      (optProp (optProp s ''nazwisko'') ''nazwisko''))"

definition full_name :: "jsval \<Rightarrow> thrown + string" where
  "full_name s =
     then_do (getProp s ''imiona'') (\<lambda>i.
     then_do (getProp i ''imie'') (\<lambda>a.
     then_do (toStr a) (\<lambda>sa.
     then_do (getProp s ''nazwisko'') (\<lambda>n.
     then_do (getProp n ''nazwisko'') (\<lambda>b.
     then_do (toStr b) (\<lambda>sb.
     Inr (sa @ '' '' @ sb)))))))"

definition brak_danych :: jsval where
  "brak_danych = JStr ''Brak danych''"

definition to_shareholder :: "jsval \<Rightarrow> thrown + Shareholder" where
  "to_shareholder s =
     then_do (full_name s) (\<lambda>n.
     then_do (getProp s ''posiadaneUdzialy'') (\<lambda>u.
     Inr \<lparr>sh_name = n, shares = or_else u brak_danych\<rparr>))"

definition to_member :: "jsval \<Rightarrow> thrown + Member" where
  "to_member m =
     then_do (full_name m) (\<lambda>n.
     then_do (getProp m ''funkcjaWOrganie'') (\<lambda>f.
     Inr \<lparr>m_name = n, m_function = or_else f brak_danych\<rparr>))"

definition to_activity :: "jsval \<Rightarrow> thrown + Activity" where
  "to_activity a =
     then_do (buildPkdCode a) (\<lambda>c.
     then_do (getProp a ''opis'') (\<lambda>opis.
     Inr \<lparr>code = c, description = opis\<rparr>))"

text \<open>
  \<open>wartosc.replace(",", ".")\<close>: a string has the method, on any other value the call
  raises.
\<close>

fun replace_comma :: "jsval \<Rightarrow> thrown + string" where
  "replace_comma (JStr w) = Inr (replace '','' ''.'' w)"
| "replace_comma JUndefined = Inl (cannot_read ''undefined'' ''replace'')"
| "replace_comma JNull = Inl (cannot_read ''null'' ''replace'')"
| "replace_comma v =
     Inl (not_a_function ''dzial1.kapital.wysokoscKapitaluZakladowego.wartosc'' ''replace'')"

text \<open>The \<open>capital\<close> property of the returned object, read from \<open>dzial1\<close>.\<close>

definition capital_of :: "jsval \<Rightarrow> thrown + Capital option" where
  "capital_of dzial1 =
     then_do (getProp dzial1 ''kapital'') (\<lambda>kapital.
     if truthy (optProp kapital ''wysokoscKapitaluZakladowego'')
     then then_do (getProp kapital ''wysokoscKapitaluZakladowego'') (\<lambda>wys.
          then_do (getProp wys ''wartosc'') (\<lambda>wartosc.
          then_do (replace_comma wartosc) (\<lambda>v.
          then_do (getProp wys ''waluta'') (\<lambda>waluta.
          Inr (Some \<lparr>cap_value = v, currency = waluta\<rparr>)))))
     else Inr None)"

text \<open>The \<open>address\<close> property, read from \<open>dzial1.siedzibaIAdres\<close>.\<close>

definition address_of :: "jsval \<Rightarrow> Address" where
  "address_of sia =
     \<lparr>city = or_else (optProp (optProp sia ''siedziba'') ''miejscowosc'') (JStr ''''),
      voivodeship = or_else (optProp (optProp sia ''siedziba'') ''wojewodztwo'') (JStr ''''),
      street = or_else (optProp (optProp sia ''adres'') ''ulica'') (JStr ''''),
      building = or_else (optProp (optProp sia ''adres'') ''nrDomu'') (JStr ''''),
      unit = or_else (optProp (optProp sia ''adres'') ''nrLokalu'') JNull,
      postalCode = or_else (optProp (optProp sia ''adres'') ''kodPocztowy'') (JStr ''''),
      country = or_else (optProp (optProp sia ''siedziba'') ''kraj'') (JStr ''POLSKA'')\<rparr>"

text \<open>The default organ name: \<open>ZARZAD\<close> with A-ogonek, the letter as its two UTF-8 bytes.\<close>

definition zarzad :: jsval where
  "zarzad = JStr (''ZARZ'' @ [CHR 0xC4, CHR 0x84] @ ''D'')"

text \<open>
  \<open>transformResponse(raw)\<close>, in the source's order of evaluation. \<open>nowIso\<close> is
  \<open>new Date().toISOString()\<close>.
\<close>

definition transformResponse :: "string \<Rightarrow> jsval \<Rightarrow> thrown + CompanyData" where
  "transformResponse nowIso raw =
     then_do (getProp raw ''odpis'') (\<lambda>odpis.
     then_do (getProp odpis ''dane'') (\<lambda>dane.
     then_do (getProp dane ''dzial1'') (\<lambda>dzial1.
     then_do (getProp dane ''dzial2'') (\<lambda>dzial2.
     then_do (getProp dane ''dzial3'') (\<lambda>dzial3.
     then_do (getProp dzial1 ''wspolnicySpzoo'') (\<lambda>wspolnicy.
     then_do (asArray ''(dzial1.wspolnicySpzoo || [])'' ''filter''
                (or_else wspolnicy (JArr []))) (\<lambda>ws.
     then_do (map_raising to_shareholder (filter has_names ws)) (\<lambda>shareholders'.
     then_do (asArray ''(dzial2?.reprezentacja?.sklad || [])'' ''filter''
                (or_else (optProp (optProp dzial2 ''reprezentacja'') ''sklad'')
                         (JArr []))) (\<lambda>sklad.
     then_do (map_raising to_member (filter has_names sklad)) (\<lambda>boardMembers.
     then_do (asArray
                ''(dzial3?.przedmiotDzialalnosci?.przedmiotPrzewazajacejDzialalnosci || [])''
                ''map''
                (or_else (optProp (optProp dzial3 ''przedmiotDzialalnosci'')
                                  ''przedmiotPrzewazajacejDzialalnosci'')
                         (JArr []))) (\<lambda>main.
     then_do (map_raising to_activity main) (\<lambda>mainActivities.
     then_do (asArray
                ''(dzial3?.przedmiotDzialalnosci?.przedmiotPozostalejDzialalnosci || [])''
                ''map''
                (or_else (optProp (optProp dzial3 ''przedmiotDzialalnosci'')
                                  ''przedmiotPozostalejDzialalnosci'')
                         (JArr []))) (\<lambda>other.
     then_do (map_raising to_activity other) (\<lambda>otherActivities'.
     then_do (getProp dzial1 ''danePodmiotu'') (\<lambda>danePodmiotu.
     then_do (getProp danePodmiotu ''nazwa'') (\<lambda>nazwa.
     then_do (getProp odpis ''naglowekA'') (\<lambda>naglowekA.
     then_do (getProp naglowekA ''numerKRS'') (\<lambda>numerKRS.
     then_do (getProp danePodmiotu ''identyfikatory'') (\<lambda>identyfikatory.
     then_do (getProp danePodmiotu ''formaPrawna'') (\<lambda>formaPrawna.
     then_do (getProp dzial1 ''siedzibaIAdres'') (\<lambda>siedzibaIAdres.
     then_do (capital_of dzial1) (\<lambda>capital'.
     then_do (getProp naglowekA ''dataRejestracjiWKRS'') (\<lambda>dataRejestracji.
     then_do (getProp naglowekA ''stanZDnia'') (\<lambda>stanZDnia.
     then_do (getProp naglowekA ''dataCzasOdpisu'') (\<lambda>dataCzasOdpisu.
     Inr \<lparr>name = nazwa,
          krs = numerKRS,
          nip = or_else (optProp identyfikatory ''nip'') JNull,
          regon = or_else (optProp identyfikatory ''regon'') JNull,
          legalForm = formaPrawna,
          address = address_of siedzibaIAdres,
          capital = capital',
          shareholders = shareholders',
          representation =
            \<lparr>organName = or_else (optProp (optProp dzial2 ''reprezentacja'') ''nazwaOrganu'')
                                  zarzad,
             rep_method = or_else (optProp (optProp dzial2 ''reprezentacja'')
                                       ''sposobReprezentacji'') brak_danych,
             members = boardMembers\<rparr>,
          mainActivity = mainActivities,
          otherActivities = otherActivities',
          registrationDate = dataRejestracji,
          lastUpdate = stanZDnia,
          dataTimestamp = or_else dataCzasOdpisu (JStr nowIso)\<rparr>
     )))))))))))))))))))))))))"


text \<open>
  For the claims about the transformation: the payload's capital amount, the value at
  \<open>raw.odpis.dane.dzial1.kapital.wysokoscKapitaluZakladowego.wartosc\<close>, and the spec's
  "empty collection or null scalar".
\<close>

definition wartosc_of :: "jsval \<Rightarrow> jsval" where
  "wartosc_of raw =
     optProp (optProp (optProp (optProp (optProp (optProp raw ''odpis'') ''dane'') ''dzial1'')
       ''kapital'') ''wysokoscKapitaluZakladowego'') ''wartosc''"

fun empty_or_null :: "jsval \<Rightarrow> bool" where
  "empty_or_null JUndefined = True"
| "empty_or_null JNull = True"
| "empty_or_null (JStr s) = (s = [])"
| "empty_or_null (JArr xs) = (xs = [])"
| "empty_or_null (JObj kvs) = (kvs = [])"
| "empty_or_null v = False"

section \<open>The JSON-RPC dispatcher of \<open>api-key-handler.ts\<close>\<close>

text \<open>
  A \<open>Response\<close> is its status and its body. The body is the object that the source hands
  to \<open>JSON.stringify\<close>; both helpers set the same \<open>Content-Type\<close> header.
\<close>

record Response =
  status :: nat
  body :: jsval

definition jsonError :: "string \<Rightarrow> nat \<Rightarrow> Response" where
  "jsonError message st = \<lparr>status = st, body = JObj [(''error'', JStr message)]\<rparr>"

text \<open>
  \<open>jsonRpcResponse(id, result, error?)\<close>. The error, when passed, is an object and so
  truthy; it is a code, as the text of the number, and a message.
\<close>

definition jsonRpcResponse :: "jsval \<Rightarrow> jsval \<Rightarrow> (string \<times> string) option \<Rightarrow> Response" where
  "jsonRpcResponse rid result error =
     \<lparr>status = 200,
      body = JObj ([(''jsonrpc'', JStr ''2.0''), (''id'', rid)] @
                   (case error of
                      Some (c, message) \<Rightarrow>
                        [(''error'', JObj [(''code'', JNum c), (''message'', JStr message)])]
                    | None \<Rightarrow> [(''result'', result)]))\<rparr>"

text \<open>
  \<open>error instanceof Error ? error.message : String(error)\<close>. A \<open>TypeError\<close> is an
  \<open>Error\<close>; \<open>String(error)\<close> can raise in its turn.
\<close>

fun error_text :: "thrown \<Rightarrow> thrown + string" where
  "error_text (TypeError message) = Inr message"
| "error_text (Error message) = Inr message"
| "error_text (Thrown v) = toStr v"

text \<open>
  What a request meets outside the function: the outcome of
  \<open>loadHtml(env.ASSETS, "/widget.html")\<close>, the clock as \<open>new Date().toISOString()\<close>, and
  \<open>JSON.stringify(_, null, 2)\<close>.
\<close>

record runtime =
  loadHtml :: "thrown + string"
  nowIso :: string
  stringify :: "jsval \<Rightarrow> string"

definition SERVER_NAME :: string where
  "SERVER_NAME = ''{{SERVER_NAME}}''"

definition SERVER_VERSION :: string where
  "SERVER_VERSION = ''1.0.0''"

text \<open>\<open>TOOL_METADATA["example-tool"]\<close> and \<open>getToolDescription\<close> of \<open>tools/descriptions.ts\<close>.\<close>

definition example_tool_title :: string where
  "example_tool_title = ''Example Tool''"

definition getToolDescription_example_tool :: string where
  "getToolDescription_example_tool =
     ''Performs an example operation on the provided input.'' @ '' '' @
     ''Returns the result object with processed data, status, and metadata fields.'' @ '' '' @
     ''Use this when you need to demonstrate the tool pattern or test the MCP server setup.''
     @ '' '' @
     ''Note: This is a placeholder tool. Replace with your actual implementation. '' @
     ''Input must be non-empty.''"

text \<open>\<open>UI_RESOURCES.widget\<close> and \<open>UI_MIME_TYPE\<close> of \<open>resources/ui-resources.ts\<close>.\<close>

definition UI_MIME_TYPE :: string where
  "UI_MIME_TYPE = ''text/html;profile=mcp-app''"

definition widget_uri :: string where
  "widget_uri = ''ui://{{SERVER_ID}}/widget''"

definition widget_name :: string where
  "widget_name = ''main_widget''"

definition widget_description :: string where
  "widget_description =
     ''Interactive widget for {{SERVER_NAME}}. '' @
     ''TODO: Replace with a detailed description of what this widget displays and its features.''"

definition widget_meta :: jsval where
  "widget_meta =
     JObj [(''ui'', JObj [(''csp'', JObj [(''connectDomains'', JArr []),
                                         (''resourceDomains'', JArr [])]),
                         (''prefersBorder'', JBool True)])]"

definition server_capabilities :: jsval where
  "server_capabilities =
     JObj [(''tools'', JObj []),
           (''prompts'', JObj [(''listChanged'', JBool True)]),
           (''resources'', JObj [(''listChanged'', JBool True)])]"

definition handleInitialize :: "jsval \<Rightarrow> thrown + Response" where
  "handleInitialize request =
     then_do (getProp request ''id'') (\<lambda>rid.
     Inr (jsonRpcResponse rid
            (JObj [(''protocolVersion'', JStr ''2024-11-05''),
                   (''capabilities'', server_capabilities),
                   (''serverInfo'', JObj [(''name'', JStr SERVER_NAME),
                                          (''version'', JStr SERVER_VERSION)])])
            None))"

definition handlePing :: "jsval \<Rightarrow> thrown + Response" where
  "handlePing request =
     then_do (getProp request ''id'') (\<lambda>rid. Inr (jsonRpcResponse rid (JObj []) None))"

definition handleToolsList :: "jsval \<Rightarrow> thrown + Response" where
  "handleToolsList request =
     then_do (getProp request ''id'') (\<lambda>rid.
     Inr (jsonRpcResponse rid
            (JObj [(''tools'', JArr [JObj
               [(''name'', JStr ''example-tool''),
                (''title'', JStr example_tool_title),
                (''description'', JStr getToolDescription_example_tool),
                (''inputSchema'', JObj
                   [(''type'', JStr ''object''),
                    (''properties'', JObj [(''input'', JObj
                        [(''type'', JStr ''string''),
                         (''description'', JStr ''Input string to process'')])]),
                    (''required'', JArr [JStr ''input''])]),
                (''annotations'', JObj
                   [(''readOnlyHint'', JBool True),
                    (''destructiveHint'', JBool False),
                    (''idempotentHint'', JBool True),
                    (''openWorldHint'', JBool False)])]])])
            None))"

text \<open>
  \<open>handleToolsCall\<close>. The \<open>try\<close> block of the \<open>example-tool\<close> case fails only where the
  template literal converts \<open>input\<close>; its \<open>catch\<close> turns the failure into a result with
  the error flag. The \<open>default\<close> case converts \<open>name\<close> outside any \<open>try\<close>.
\<close>

definition tool_error_result :: "string \<Rightarrow> jsval" where
  "tool_error_result message =
     JObj [(''content'', JArr [JObj [(''type'', JStr ''text''),
                                     (''text'', JStr (''Error: '' @ message))]]),
           (''isError'', JBool True)]"

definition handleToolsCall :: "runtime \<Rightarrow> jsval \<Rightarrow> string \<Rightarrow> thrown + Response" where
  "handleToolsCall rt request userId =
     then_do (getProp request ''params'') (\<lambda>params.
     let name = optProp (or_else params (JObj [])) ''name'';
         args = optProp (or_else params (JObj [])) ''arguments''
     in if name = JStr ''example-tool'' then
          (let input = or_else (optProp args ''input'') (JStr '''')
           in case toStr input of
                Inr text \<Rightarrow>
                  (let result = JObj [(''message'', JStr (''Processed: '' @ text)),
                                      (''timestamp'', JStr (nowIso rt)),
                                      (''userId'', JStr userId)]
                   in then_do (getProp request ''id'') (\<lambda>rid.
                      Inr (jsonRpcResponse rid
                             (JObj [(''content'', JArr [JObj
                                       [(''type'', JStr ''text''),
                                        (''text'', JStr (stringify rt result))]]),
                                    (''structuredContent'', result)])
                             None)))
              | Inl error \<Rightarrow>
                  then_do (getProp request ''id'') (\<lambda>rid.
                  then_do (error_text error) (\<lambda>message.
                  Inr (jsonRpcResponse rid (tool_error_result message) None))))
        else
          then_do (getProp request ''id'') (\<lambda>rid.
          then_do (toStr name) (\<lambda>text.
          Inr (jsonRpcResponse rid JNull (Some (''-32602'', ''Unknown tool: '' @ text))))))"

definition handleResourcesList :: "jsval \<Rightarrow> thrown + Response" where
  "handleResourcesList request =
     then_do (getProp request ''id'') (\<lambda>rid.
     Inr (jsonRpcResponse rid
            (JObj [(''resources'', JArr [JObj
               [(''uri'', JStr widget_uri),
                (''name'', JStr widget_name),
                (''description'', JStr widget_description),
                (''mimeType'', JStr UI_MIME_TYPE)]])])
            None))"

definition handleResourcesRead :: "runtime \<Rightarrow> jsval \<Rightarrow> thrown + Response" where
  "handleResourcesRead rt request =
     then_do (getProp request ''params'') (\<lambda>params.
     let uri = optProp (or_else params (JObj [])) ''uri''
     in if uri = JStr widget_uri then
          then_do (loadHtml rt) (\<lambda>html.
          then_do (getProp request ''id'') (\<lambda>rid.
          Inr (jsonRpcResponse rid
                 (JObj [(''contents'', JArr [JObj
                    [(''uri'', JStr widget_uri),
                     (''mimeType'', JStr UI_MIME_TYPE),
                     (''text'', JStr html),
                     (''_meta'', widget_meta)]])])
                 None)))
        else
          then_do (getProp request ''id'') (\<lambda>rid.
          then_do (toStr uri) (\<lambda>text.
          Inr (jsonRpcResponse rid JNull
                 (Some (''-32602'', ''Unknown resource: '' @ text))))))"

definition handlePromptsList :: "jsval \<Rightarrow> thrown + Response" where
  "handlePromptsList request =
     then_do (getProp request ''id'') (\<lambda>rid.
     Inr (jsonRpcResponse rid (JObj [(''prompts'', JArr [])]) None))"

text \<open>
  \<open>handleHTTPTransport\<close>. \<open>parsed\<close> is the outcome of \<open>await request.json()\<close>: the parsed
  body, or what the parser threw. Everything from the parsing to the last handler is
  inside the one \<open>try\<close>, and its \<open>catch\<close> answers -32700 with the id \<open>"error"\<close>.
\<close>

definition supported_methods :: "string list" where
  "supported_methods =
     [''initialize'', ''ping'', ''tools/list'', ''tools/call'', ''resources/list'',
      ''resources/read'', ''prompts/list'']"

definition route :: "runtime \<Rightarrow> jsval \<Rightarrow> string \<Rightarrow> thrown + Response" where
  "route rt jsonRpcRequest userId =
     then_do (getProp jsonRpcRequest ''jsonrpc'') (\<lambda>marker.
     if marker \<noteq> JStr ''2.0'' then
       then_do (getProp jsonRpcRequest ''id'') (\<lambda>rid.
       Inr (jsonRpcResponse rid JNull (Some (''-32600'', ''Invalid Request''))))
     else
       then_do (getProp jsonRpcRequest ''method'') (\<lambda>m.
       if m = JStr ''initialize'' then handleInitialize jsonRpcRequest
       else if m = JStr ''ping'' then handlePing jsonRpcRequest
       else if m = JStr ''tools/list'' then handleToolsList jsonRpcRequest
       else if m = JStr ''tools/call'' then handleToolsCall rt jsonRpcRequest userId
       else if m = JStr ''resources/list'' then handleResourcesList jsonRpcRequest
       else if m = JStr ''resources/read'' then handleResourcesRead rt jsonRpcRequest
       else if m = JStr ''prompts/list'' then handlePromptsList jsonRpcRequest
       else
         then_do (getProp jsonRpcRequest ''id'') (\<lambda>rid.
         then_do (toStr m) (\<lambda>text.
         Inr (jsonRpcResponse rid JNull
                (Some (''-32601'', ''Method not found: '' @ text)))))))"

definition handleHTTPTransport ::
    "runtime \<Rightarrow> thrown + jsval \<Rightarrow> string \<Rightarrow> thrown + Response" where
  "handleHTTPTransport rt parsed userId =
     (case then_do parsed (\<lambda>jsonRpcRequest. route rt jsonRpcRequest userId) of
        Inr response \<Rightarrow> Inr response
      | Inl error \<Rightarrow>
          then_do (error_text error) (\<lambda>message.
          Inr (jsonRpcResponse (JStr ''error'') JNull
                 (Some (''-32700'', ''Parse error: '' @ message)))))"


section \<open>The registry client: \<open>KrsClient.getCompany\<close>\<close>

text \<open>
  Modelled from the spec: the response cache behind \<open>env.CACHE_KV\<close>, a binding of the
  platform whose code is not in the repository. An entry is the stored text with its
  stored-at time and its TTL, both in seconds; a lookup at time \<open>now\<close> finds it while
  \<open>now\<close> is strictly inside the TTL window and treats it as absent afterwards; storing a
  key again replaces the entry and starts a new window; a lookup changes nothing.
\<close>

record kv_entry =
  kv_text :: string
  stored_at :: nat
  ttl :: nat

type_synonym kv_store = "string \<rightharpoonup> kv_entry"

text \<open>
  Modelled from the spec: \<open>CACHE_KV.get(key)\<close>, the lookup of the platform's store. An
  entry whose window has elapsed is treated as absent, never returned.
\<close>

definition kv_get :: "nat \<Rightarrow> kv_store \<Rightarrow> string \<Rightarrow> string option" where
  "kv_get now kv key =
     (case kv key of
        None \<Rightarrow> None
      | Some e \<Rightarrow> if now < stored_at e + ttl e then Some (kv_text e) else None)"

text \<open>
  Modelled from the spec: \<open>CACHE_KV.put(key, text, {expirationTtl})\<close>, the store
  operation of the platform. It replaces any earlier entry and starts a new window.
\<close>

definition kv_put :: "nat \<Rightarrow> kv_store \<Rightarrow> string \<Rightarrow> string \<Rightarrow> nat \<Rightarrow> kv_store" where
  "kv_put now kv key text expirationTtl =
     kv(key \<mapsto> \<lparr>kv_text = text, stored_at = now, ttl = expirationTtl\<rparr>)"

definition KRS_API_BASE :: string where
  "KRS_API_BASE = ''https://api-krs.ms.gov.pl/api/krs''"

definition CACHE_TTL_SECONDS :: nat where
  "CACHE_TTL_SECONDS = 3600"

datatype extract_kind = Aktualny | Pelny

fun type_text :: "extract_kind \<Rightarrow> string" where
  "type_text Aktualny = ''aktualny''"
| "type_text Pelny = ''pelny''"

text \<open>
  What \<open>fetch\<close> does for a URL: it raises a \<open>TimeoutError\<close>, it raises something else,
  or it returns a response, of which the client reads the status and \<open>response.json()\<close>.
\<close>

datatype fetch_outcome =
    Fetch_timeout
  | Fetch_failed
  | Fetch_response nat "thrown + jsval"

text \<open>A status code in a template literal: its decimal digits.\<close>

function show_nat :: "nat \<Rightarrow> string" where
  "show_nat n =
     (if n < 10 then [''0123456789'' ! n]
      else show_nat (n div 10) @ [''0123456789'' ! (n mod 10)])"
  by pat_completeness auto
termination
  by (relation "measure id") auto

declare show_nat.simps [simp del]

text \<open>
  What \<open>getCompany\<close> meets outside the function: the clock in seconds (of the cache) and
  as ISO text, \<open>fetch\<close>, and \<open>JSON.stringify\<close> and \<open>JSON.parse\<close> between a record and the
  cached text.
\<close>

record krs_env =
  clock :: nat
  clockIso :: string
  fetch :: "string \<Rightarrow> fetch_outcome"
  serialize :: "CompanyData \<Rightarrow> string"
  parse :: "string \<Rightarrow> thrown + CompanyData"

definition cacheKey :: "string \<Rightarrow> extract_kind \<Rightarrow> string" where
  "cacheKey krsNumber t = ''krs:'' @ krsNumber @ '':'' @ type_text t"

definition registry_url :: "string \<Rightarrow> extract_kind \<Rightarrow> string" where
  "registry_url krsNumber t =
     KRS_API_BASE @ ''/'' @ (if t = Aktualny then ''OdpisAktualny'' else ''OdpisPelny'')
       @ ''/'' @ krsNumber @ ''?rejestr=P&format=json''"

definition response_ok :: "nat \<Rightarrow> bool" where
  "response_ok st = (200 \<le> st \<and> st \<le> 299)"

text \<open>
  \<open>getCompany(krs, type)\<close>: the outcome and the cache afterwards. \<open>if (cached)\<close> takes a
  cached text that is not empty.
\<close>

definition from_registry ::
    "krs_env \<Rightarrow> kv_store \<Rightarrow> string \<Rightarrow> extract_kind \<Rightarrow> (thrown + CompanyData) \<times> kv_store" where
  "from_registry env kv krsNumber t =
     (case fetch env (registry_url krsNumber t) of
        Fetch_timeout \<Rightarrow> (Inl (Error ''KRS API timeout - please try again''), kv)
      | Fetch_failed \<Rightarrow> (Inl (Error ''KRS API unavailable - please try again later''), kv)
      | Fetch_response st json \<Rightarrow>
          if \<not> response_ok st then
            (if st = 404 then
               (Inl (Error (''Company with KRS '' @ krsNumber @ '' not found in registry'')), kv)
             else if st = 400 then
               (Inl (Error (''Invalid KRS number format: '' @ krsNumber)), kv)
             else (Inl (Error (''KRS API error: '' @ show_nat st)), kv))
          else
            (case then_do json (transformResponse (clockIso env)) of
               Inl error \<Rightarrow> (Inl error, kv)
             | Inr data \<Rightarrow>
                 (Inr data,
                  kv_put (clock env) kv (cacheKey krsNumber t) (serialize env data)
                    CACHE_TTL_SECONDS)))"

definition getCompany ::
    "krs_env \<Rightarrow> kv_store \<Rightarrow> string \<Rightarrow> extract_kind \<Rightarrow> (thrown + CompanyData) \<times> kv_store" where
  "getCompany env kv krsNumber t =
     (case kv_get (clock env) kv (cacheKey krsNumber t) of
        Some cached \<Rightarrow>
          if cached \<noteq> [] then (parse env cached, kv)
          else from_registry env kv krsNumber t
      | None \<Rightarrow> from_registry env kv krsNumber t)"

section \<open>The \<open>view_company\<close> tool handler of the server\<close>

text \<open>
  What the handler returns to the protocol layer: the texts of its content items, the
  structured payload and the view id of a success, and the error flag (absent, so false,
  on a success).
\<close>

record tool_result =
  content :: "string list"
  structuredContent :: "CompanyData option"
  isError :: bool
  viewUUID :: "string option"

definition next_steps :: string where
  "next_steps =
     [CHR 0x0A, CHR 0x0A] @
     ''Next steps: Ask follow-up questions about this company's board, capital, or '' @
     ''activities. For full historical data, call view_company again with type 'pelny'.''"

text \<open>
  The \<open>catch\<close> of the handler:
  \<open>error instanceof Error ? error.message : "Unknown error occurred"\<close>.
\<close>

fun errorMessage :: "thrown \<Rightarrow> string" where
  "errorMessage (TypeError message) = message"
| "errorMessage (Error message) = message"
| "errorMessage (Thrown v) = ''Unknown error occurred''"

definition lookup_failed :: "string \<Rightarrow> thrown \<Rightarrow> tool_result" where
  "lookup_failed krsNumber error =
     \<lparr>content = [''Error looking up KRS '' @ krsNumber @ '': '' @ errorMessage error],
      structuredContent = None, isError = True, viewUUID = None\<rparr>"

text \<open>
  The handler. \<open>userId\<close> is \<open>this.props?.userId\<close>, \<open>t\<close> the optional \<open>type\<close> argument with
  its default, \<open>uuid\<close> is \<open>crypto.randomUUID()\<close>. \<open>formatCompanyAsText\<close> enters as
  the function \<open>format\<close>: whatever it builds or raises, it does so inside the \<open>try\<close>.
  The handler's log lines are left out.
\<close>

definition view_company ::
    "krs_env \<Rightarrow> (CompanyData \<Rightarrow> thrown + string) \<Rightarrow> string \<Rightarrow> string option \<Rightarrow> kv_store
      \<Rightarrow> string \<Rightarrow> extract_kind option \<Rightarrow> (thrown + tool_result) \<times> kv_store" where
  "view_company env format uuid userId kv krsNumber t =
     (if userId = None \<or> userId = Some [] then
        (Inl (Error ''User ID not found in authentication context''), kv)
      else
        (case getCompany env kv krsNumber (case t of None \<Rightarrow> Aktualny | Some t' \<Rightarrow> t') of
           (Inr companyData, kv') \<Rightarrow>
             (case format companyData of
                Inr text \<Rightarrow>
                  (Inr \<lparr>content = [text @ next_steps],
                        structuredContent = Some companyData,
                        isError = False, viewUUID = Some uuid\<rparr>, kv')
              | Inl error \<Rightarrow> (Inr (lookup_failed krsNumber error), kv'))
         | (Inl error, kv') \<Rightarrow> (Inr (lookup_failed krsNumber error), kv')))"


section \<open>The key-based lane: \<open>isApiKeyRequest\<close> and \<open>handleApiKeyRequest\<close>\<close>

text \<open>
  \<open>isApiKeyRequest(pathname, authHeader)\<close>. \<open>headers.get\<close> gives a string or \<open>null\<close>;
  \<open>!authHeader\<close> holds for \<open>null\<close> and for the empty string.
\<close>

definition isApiKeyRequest :: "string \<Rightarrow> string option \<Rightarrow> bool" where
  "isApiKeyRequest pathname authHeader =
     (if pathname \<noteq> ''/mcp'' then False
      else (case authHeader of
              None \<Rightarrow> False
            | Some h \<Rightarrow> if h = [] then False
                        else prefix ''wtyk_'' (replace ''Bearer '' '''' h)))"

text \<open>
  A cached server instance: of all that \<open>getOrCreateServer\<close> registers, only the
  \<open>userId\<close> captured by the tool differs from one instance to the next.
\<close>

datatype McpServer = McpServer string

definition MAX_CACHED_SERVERS :: int where
  "MAX_CACHED_SERVERS = 100"

text \<open>The module's cache, \<open>new LRUCache<string, McpServer>(MAX_CACHED_SERVERS)\<close>.\<close>

definition serverCache :: "McpServer LRUCache" where
  "serverCache = new_LRUCache MAX_CACHED_SERVERS"

text \<open>
  \<open>getOrCreateServer\<close>: a hit refreshes the entry and returns it; a miss builds the
  instance and stores it. The registration calls of the SDK in between are taken not to
  raise.
\<close>

definition getOrCreateServer ::
    "int \<Rightarrow> string \<Rightarrow> McpServer LRUCache \<Rightarrow> McpServer \<times> McpServer LRUCache \<times> log_event list" where
  "getOrCreateServer now userId c =
     (case lru_get now userId c of
        (Some cached, c') \<Rightarrow> (cached, c', [])
      | (None, c') \<Rightarrow>
          (case lru_set now userId (McpServer userId) c' of
             (c'', evs) \<Rightarrow> (McpServer userId, c'', evs)))"

text \<open>
  A request as \<open>handleApiKeyRequest\<close> reads it: the \<open>Authorization\<close> header and the
  outcome of \<open>request.json()\<close>. \<open>apiKey_of\<close> is \<open>authHeader?.replace("Bearer ", "")\<close>.
\<close>

record request =
  authorization :: "string option"
  json :: "thrown + jsval"

definition apiKey_of :: "string option \<Rightarrow> string option" where
  "apiKey_of authHeader = map_option (replace ''Bearer '' '''') authHeader"

text \<open>
  The outer \<open>catch\<close>: it logs the error and answers 500; converting the error to a
  string can raise in its turn, and then the raise leaves the function.
\<close>

definition internal_error ::
    "thrown \<Rightarrow> McpServer LRUCache \<Rightarrow> log_event list
      \<Rightarrow> (thrown + Response) \<times> McpServer LRUCache \<times> log_event list" where
  "internal_error error c evs =
     (case error_text error of
        Inl e \<Rightarrow> (Inl e, c, evs)
      | Inr text \<Rightarrow>
          (Inr (jsonError (''Internal server error: '' @ text) 500), c,
           evs @ [Server_error text]))"

text \<open>
  \<open>handleApiKeyRequest\<close>: the answer (or what escapes), the server cache afterwards and
  the log lines written. \<open>validateApiKey\<close> is the credential check of \<open>auth/apiKeys\<close>,
  which is not among the sources: it maps a key to a user id and an email, to nothing,
  or it raises. \<open>now\<close> is \<open>Date.now()\<close>.
\<close>

definition handleApiKeyRequest ::
    "(string \<Rightarrow> thrown + (string \<times> string) option) \<Rightarrow> runtime \<Rightarrow> int \<Rightarrow> request \<Rightarrow> string
      \<Rightarrow> McpServer LRUCache \<Rightarrow> (thrown + Response) \<times> McpServer LRUCache \<times> log_event list" where
  "handleApiKeyRequest validateApiKey rt now req pathname c =
     (case apiKey_of (authorization req) of
        None \<Rightarrow> (Inr (jsonError ''Missing Authorization header'' 401), c, [])
      | Some apiKey \<Rightarrow>
          if apiKey = [] then (Inr (jsonError ''Missing Authorization header'' 401), c, [])
          else
            (case validateApiKey apiKey of
               Inl error \<Rightarrow> internal_error error c []
             | Inr None \<Rightarrow>
                 (Inr (jsonError ''Invalid or expired API key'' 401), c, [Auth_attempt_failed])
             | Inr (Some (userId, email)) \<Rightarrow>
                 (case getOrCreateServer now userId c of
                    (server, c', evs) \<Rightarrow>
                      if pathname = ''/mcp'' then
                        (case handleHTTPTransport rt (json req) userId of
                           Inr response \<Rightarrow>
                             (Inr response, c', Auth_attempt_ok email userId # evs)
                         | Inl error \<Rightarrow>
                             internal_error error c' (Auth_attempt_ok email userId # evs))
                      else
                        (Inr (jsonError ''Invalid endpoint. Use /mcp'' 400), c',
                         Auth_attempt_ok email userId # evs))))"


section \<open>Properties of the LRU cache\<close>



lemma length_delete_present:
  "distinct (map fst al) \<Longrightarrow> map_of al k \<noteq> None \<Longrightarrow> Suc (length (AList.delete k al)) = length al"
proof (induction al)
  case Nil
  then show ?case by simp
next
  case (Cons p al)
  show ?case
  proof (cases "fst p = k")
    case True
    with Cons.prems have "k \<notin> fst ` set al" by auto
    then have "AList.delete k al = al"
      by (simp add: AList.delete_id)
    with True show ?thesis by (cases p) (simp add: AList.delete_eq)
  next
    case False
    with Cons show ?thesis by (cases p) (auto simp: AList.delete_eq)
  qed
qed

lemma oldest_scanned:
  "distinct (map fst (seen @ xs)) \<Longrightarrow> scanned seen acc \<Longrightarrow> scanned (seen @ xs) (oldest xs acc)"
proof (induction xs arbitrary: seen acc)
  case Nil
  then show ?case by simp
next
  case (Cons p xs)
  obtain key e where p: "p = (key, e)" by (cases p)
  obtain ok ot where acc: "acc = (ok, ot)" by (cases acc)
  from Cons.prems(1) have d: "distinct (map fst ((seen @ [p]) @ xs))" by simp
  from Cons.prems(1) p have fresh: "key \<notin> fst ` set seen" by auto
  have step: "scanned (seen @ [p])
      (if below (lastAccessed e) ot then (Some key, Some (lastAccessed e)) else (ok, ot))"
  proof (cases "below (lastAccessed e) ot")
    case True
    from fresh have "map_of seen key = None"
      by (simp add: map_of_eq_None_iff)
    then have "map_of (seen @ [(key, e)]) key = Some e"
      by (simp add: map_add_def)
    moreover have "\<forall>(k', e') \<in> set seen. lastAccessed e \<le> lastAccessed e'"
      using Cons.prems(2) True acc
      by (cases ok; cases ot) (auto simp: scanned_def)
    ultimately show ?thesis using True p by (auto simp: scanned_def)
  next
    case False
    then obtain u where ot: "ot = Some u" and u: "u \<le> lastAccessed e"
      by (cases ot) auto
    with Cons.prems(2) acc obtain k where ok: "ok = Some k"
      by (cases ok) (auto simp: scanned_def)
    from Cons.prems(2) acc ot ok obtain e0 where
      e0: "map_of seen k = Some e0" "lastAccessed e0 = u"
          "\<forall>(k', e') \<in> set seen. u \<le> lastAccessed e'"
      by (auto simp: scanned_def)
    have "map_of (seen @ [p]) k = Some e0"
      using e0(1) by (simp add: map_add_def)
    with e0 u False ot ok p show ?thesis by (auto simp: scanned_def)
  qed
  have "oldest (p # xs) acc =
        oldest xs (if below (lastAccessed e) ot then (Some key, Some (lastAccessed e)) else (ok, ot))"
    by (simp add: p acc)
  with Cons.IH [OF d step] show ?case by simp
qed

lemma oldest_least:
  assumes "distinct (map fst al)" and "al \<noteq> []"
  shows "\<exists>k e. fst (oldest al (None, None)) = Some k \<and> map_of al k = Some e
           \<and> (\<forall>(k', e') \<in> set al. lastAccessed e \<le> lastAccessed e')"
proof -
  have "scanned ([] @ al) (oldest al (None, None))"
    by (rule oldest_scanned) (use assms in \<open>simp_all add: scanned_def\<close>)
  with assms(2) show ?thesis
    by (cases "oldest al (None, None)") (auto simp: scanned_def split: option.splits)
qed

lemma evictLRU_nonempty:
  assumes "distinct (map fst (cache c))" and "cache c \<noteq> []"
  shows "\<exists>k e. evictLRU c = (c\<lparr>cache := AList.delete k (cache c)\<rparr>,
                               [Lru_cache_eviction k (length (cache c))])
           \<and> map_of (cache c) k = Some e
           \<and> (\<forall>(k', e') \<in> set (cache c). lastAccessed e \<le> lastAccessed e')"
proof -
  from oldest_least [OF assms] obtain k e where
    "fst (oldest (cache c) (None, None)) = Some k" "map_of (cache c) k = Some e"
    "\<forall>(k', e') \<in> set (cache c). lastAccessed e \<le> lastAccessed e'"
    by blast
  then show ?thesis by (auto simp: evictLRU_def)
qed

lemma evictLRU_empty: "cache c = [] \<Longrightarrow> evictLRU c = (c, [])"
  by (simp add: evictLRU_def)












text \<open>
  C9, as stated, fails: the notification of \<open>evictLRU\<close> is written before
  \<open>this.cache.delete\<close>, so its \<open>cache_size\<close> is the size before the removal. With two
  entries the notification says 2 and the cache is left with 1.
\<close>

theorem eviction_notifies_resulting_size_counterexample:
  "snd (evictLRU \<lparr>cache = [(''u1'', \<lparr>entry_value = (), lastAccessed = 1\<rparr>),
                            (''u2'', \<lparr>entry_value = (), lastAccessed = 2\<rparr>)], maxSize = 2\<rparr>)
     = [Lru_cache_eviction ''u1'' 2]
   \<and> lru_size (fst (evictLRU \<lparr>cache = [(''u1'', \<lparr>entry_value = (), lastAccessed = 1\<rparr>),
                                        (''u2'', \<lparr>entry_value = (), lastAccessed = 2\<rparr>)],
                               maxSize = 2\<rparr>)) = 1"
  by (simp add: evictLRU_def lru_size_def)

text \<open>
  C9, amended. \<open>evictLRU\<close> always returns. On an empty map it removes nothing and
  notifies nothing. On a non-empty map it removes exactly one key and emits exactly one
  notification, which carries that key and the size of the cache before the removal: one
  more than the resulting size.
\<close>

theorem eviction_notifies_key_and_size_before_removal:
  assumes "distinct (map fst (cache c))"
  shows "if cache c = [] then evictLRU c = (c, [])
         else (\<exists>k. lru_has c k
                 \<and> evictLRU c = (c\<lparr>cache := AList.delete k (cache c)\<rparr>,
                                 [Lru_cache_eviction k (lru_size c)])
                 \<and> lru_size c = Suc (lru_size (fst (evictLRU c))))"
proof (cases "cache c = []")
  case True
  then show ?thesis by (simp add: evictLRU_empty)
next
  case False
  from evictLRU_nonempty [OF assms False] obtain k e where
    ev: "evictLRU c = (c\<lparr>cache := AList.delete k (cache c)\<rparr>,
                       [Lru_cache_eviction k (length (cache c))])"
    and k: "map_of (cache c) k = Some e"
    by blast
  from assms k have "Suc (length (AList.delete k (cache c))) = length (cache c)"
    by (simp add: length_delete_present)
  with ev k False show ?thesis
    by (auto simp: lru_has_def lru_size_def)
qed

text \<open>Witness for the amended C9, on the cache of the counterexample.\<close>

theorem eviction_notifies_key_and_size_before_removal_witness:
  "distinct (map fst [(''u1'', \<lparr>entry_value = (), lastAccessed = 1::int\<rparr>),
                      (''u2'', \<lparr>entry_value = (), lastAccessed = 2\<rparr>)])
   \<and> evictLRU \<lparr>cache = [(''u1'', \<lparr>entry_value = (), lastAccessed = 1\<rparr>),
                          (''u2'', \<lparr>entry_value = (), lastAccessed = 2\<rparr>)],
                 maxSize = 2\<rparr>
       = (\<lparr>cache = [(''u2'', \<lparr>entry_value = (), lastAccessed = 2\<rparr>)], maxSize = 2\<rparr>,
          [Lru_cache_eviction ''u1'' 2])
   \<and> lru_size \<lparr>cache = [(''u1'', \<lparr>entry_value = (), lastAccessed = 1\<rparr>),
                          (''u2'', \<lparr>entry_value = (), lastAccessed = 2\<rparr>)],
                 maxSize = 2\<rparr>
       = Suc (lru_size (fst (evictLRU \<lparr>cache = [(''u1'', \<lparr>entry_value = (), lastAccessed = 1\<rparr>),
                          (''u2'', \<lparr>entry_value = (), lastAccessed = 2\<rparr>)],
                 maxSize = 2\<rparr>)))"
  using eviction_notifies_key_and_size_before_removal
          [of "\<lparr>cache = [(''u1'', \<lparr>entry_value = (), lastAccessed = 1\<rparr>),
                         (''u2'', \<lparr>entry_value = (), lastAccessed = 2\<rparr>)], maxSize = 2\<rparr>"]
  by (simp add: evictLRU_def lru_size_def)

section \<open>Properties of the transformation\<close>

lemma then_do_Inr [simp]: "then_do (Inr x) f = f x"
  by (simp add: then_do_def)

lemma then_do_Inl [simp]: "then_do (Inl e) f = Inl e"
  by (simp add: then_do_def)

lemma then_do_InrE:
  assumes "then_do m f = Inr y"
  obtains x where "m = Inr x" and "f x = Inr y"
  using assms by (cases m) (auto simp: then_do_def)

lemma getProp_Inr: "getProp v k = Inr x \<Longrightarrow> x = optProp v k"
  by (cases v) auto

lemma optProp_nullish: "nullish v \<Longrightarrow> optProp v k = JUndefined"
  by (cases v) auto

lemma nullish_not_truthy: "nullish v \<Longrightarrow> \<not> truthy v"
  by (cases v) auto

lemmas transform_defs =
  transformResponse_def capital_of_def address_of_def own_prop_def or_else_def and_also_def
  has_names_def to_shareholder_def to_member_def to_activity_def full_name_def
  buildPkdCode_def zarzad_def brak_danych_def

text \<open>
  C3, as stated, fails. On a payload that has only the required parts the transformation
  returns the full record, but three of its defaults are neither empty nor null: the
  country is \<open>POLSKA\<close>, the organ name \<open>ZARZAD\<close> (with A-ogonek) and the method of
  representation \<open>Brak danych\<close>.
\<close>

theorem transform_defaults_all_empty_counterexample:
  "transformResponse ''2026-01-01T00:00:00.000Z''
     (JObj [(''odpis'', JObj [(''naglowekA'', JObj [(''numerKRS'', JStr ''0000012345''),
       (''dataRejestracjiWKRS'', JStr ''01.02.2003''),
       (''stanZDnia'', JStr ''04.05.2026'')]),
       (''dane'', JObj [(''dzial1'', JObj [(''danePodmiotu'', JObj [(''formaPrawna'', JStr ''SP. Z O.O.''),
       (''nazwa'', JStr ''ACME'')])])])])])
   = Inr \<lparr>name = JStr ''ACME'', krs = JStr ''0000012345'', nip = JNull, regon = JNull,
          legalForm = JStr ''SP. Z O.O.'',
          address = \<lparr>city = JStr [], voivodeship = JStr [], street = JStr [],
                     building = JStr [], unit = JNull, postalCode = JStr [],
                     country = JStr ''POLSKA''\<rparr>,
          capital = None,
          shareholders = [],
          representation = \<lparr>organName = JStr (''ZARZ'' @ [CHR 0xC4, CHR 0x84] @ ''D''),
                            rep_method = JStr ''Brak danych'', members = []\<rparr>,
          mainActivity = [], otherActivities = [],
          registrationDate = JStr ''01.02.2003'', lastUpdate = JStr ''04.05.2026'',
          dataTimestamp = JStr ''2026-01-01T00:00:00.000Z''\<rparr>
   \<and> \<not> empty_or_null (JStr ''POLSKA'')
   \<and> \<not> empty_or_null (JStr (''ZARZ'' @ [CHR 0xC4, CHR 0x84] @ ''D''))
   \<and> \<not> empty_or_null (JStr ''Brak danych'')"
  by (simp add: transform_defs)

text \<open>
  C3, amended. Let the payload hold the objects \<open>odpis\<close>, \<open>odpis.naglowekA\<close>,
  \<open>odpis.dane\<close>, \<open>dzial1\<close> and \<open>danePodmiotu\<close>, and let the identifiers, the seat,
  the address, the capital amount, the shareholders, the representation body and the
  subject of activity be missing or \<open>null\<close>, by themselves or together with the part
  of the payload that would hold them. Then the transformation raises nothing and returns
  the record of the fixed shape with \<open>nip\<close>, \<open>regon\<close>, \<open>unit\<close> and \<open>capital\<close> null, the
  four lists empty, five address parts the empty string, and the fixed texts \<open>POLSKA\<close>,
  \<open>ZARZAD\<close> (with A-ogonek) and \<open>Brak danych\<close> for country, organ name and method.
\<close>

theorem transform_defaults:
  assumes "own_prop raw ''odpis'' = JObj odpis"
    and "own_prop odpis ''naglowekA'' = JObj naglowekA"
    and "own_prop odpis ''dane'' = JObj dane"
    and "own_prop dane ''dzial1'' = JObj dzial1"
    and "own_prop dzial1 ''danePodmiotu'' = JObj danePodmiotu"
    and "nullish (own_prop danePodmiotu ''identyfikatory'')"
    and "nullish (optProp (own_prop dzial1 ''siedzibaIAdres'') ''siedziba'')"
    and "nullish (optProp (own_prop dzial1 ''siedzibaIAdres'') ''adres'')"
    and "nullish (optProp (own_prop dzial1 ''kapital'') ''wysokoscKapitaluZakladowego'')"
    and "nullish (own_prop dzial1 ''wspolnicySpzoo'')"
    and "nullish (optProp (own_prop dane ''dzial2'') ''reprezentacja'')"
    and "nullish (optProp (own_prop dane ''dzial3'') ''przedmiotDzialalnosci'')"
  shows "transformResponse stamp (JObj raw) =
     Inr \<lparr>name = own_prop danePodmiotu ''nazwa'',
          krs = own_prop naglowekA ''numerKRS'',
          nip = JNull,
          regon = JNull,
          legalForm = own_prop danePodmiotu ''formaPrawna'',
          address = \<lparr>city = JStr '''', voivodeship = JStr '''', street = JStr '''',
                     building = JStr '''', unit = JNull, postalCode = JStr '''',
                     country = JStr ''POLSKA''\<rparr>,
          capital = None,
          shareholders = [],
          representation = \<lparr>organName = zarzad, rep_method = brak_danych, members = []\<rparr>,
          mainActivity = [],
          otherActivities = [],
          registrationDate = own_prop naglowekA ''dataRejestracjiWKRS'',
          lastUpdate = own_prop naglowekA ''stanZDnia'',
          dataTimestamp = or_else (own_prop naglowekA ''dataCzasOdpisu'') (JStr stamp)\<rparr>"
proof -
  have cap: "capital_of (JObj dzial1) = Inr None"
    using assms(9) by (simp add: capital_of_def nullish_not_truthy)
  have addr: "address_of (own_prop dzial1 ''siedzibaIAdres'') =
      \<lparr>city = JStr '''', voivodeship = JStr '''', street = JStr '''',
       building = JStr '''', unit = JNull, postalCode = JStr '''',
       country = JStr ''POLSKA''\<rparr>"
    using assms(7,8) by (simp add: address_of_def optProp_nullish or_else_def)
  show ?thesis
    using assms(1-6,10-12) cap addr
    by (simp add: transformResponse_def optProp_nullish or_else_def nullish_not_truthy)
qed

text \<open>Witness for the amended C3: the payload of the counterexample.\<close>

theorem transform_defaults_witness:
  "transformResponse ''2026-01-01T00:00:00.000Z''
     (JObj [(''odpis'', JObj [(''naglowekA'', JObj [(''numerKRS'', JStr ''0000012345''),
       (''dataRejestracjiWKRS'', JStr ''01.02.2003''),
       (''stanZDnia'', JStr ''04.05.2026'')]),
       (''dane'', JObj [(''dzial1'', JObj [(''danePodmiotu'', JObj [(''formaPrawna'', JStr ''SP. Z O.O.''),
       (''nazwa'', JStr ''ACME'')])])])])])
   = Inr \<lparr>name = JStr ''ACME'', krs = JStr ''0000012345'', nip = JNull, regon = JNull,
          legalForm = JStr ''SP. Z O.O.'',
          address = \<lparr>city = JStr [], voivodeship = JStr [], street = JStr [],
                     building = JStr [], unit = JNull, postalCode = JStr [],
                     country = JStr ''POLSKA''\<rparr>,
          capital = None,
          shareholders = [],
          representation = \<lparr>organName = JStr (''ZARZ'' @ [CHR 0xC4, CHR 0x84] @ ''D''),
                            rep_method = JStr ''Brak danych'', members = []\<rparr>,
          mainActivity = [], otherActivities = [],
          registrationDate = JStr ''01.02.2003'', lastUpdate = JStr ''04.05.2026'',
          dataTimestamp = JStr ''2026-01-01T00:00:00.000Z''\<rparr>"
proof -
  have "transformResponse ''2026-01-01T00:00:00.000Z''
     (JObj [(''odpis'', JObj [(''naglowekA'', JObj [(''numerKRS'', JStr ''0000012345''),
       (''dataRejestracjiWKRS'', JStr ''01.02.2003''),
       (''stanZDnia'', JStr ''04.05.2026'')]),
       (''dane'', JObj [(''dzial1'', JObj [(''danePodmiotu'', JObj [(''formaPrawna'', JStr ''SP. Z O.O.''),
       (''nazwa'', JStr ''ACME'')])])])])])
   = Inr \<lparr>name = own_prop [(''formaPrawna'', JStr ''SP. Z O.O.''), (''nazwa'', JStr ''ACME'')] ''nazwa'',
          krs = own_prop 
              [(''numerKRS'', JStr ''0000012345''),
              (''dataRejestracjiWKRS'', JStr ''01.02.2003''),
              (''stanZDnia'', JStr ''04.05.2026'')] ''numerKRS'',
          nip = JNull,
          regon = JNull,
          legalForm = own_prop [(''formaPrawna'', JStr ''SP. Z O.O.''), (''nazwa'', JStr ''ACME'')] ''formaPrawna'',
          address = \<lparr>city = JStr '''', voivodeship = JStr '''', street = JStr '''',
                     building = JStr '''', unit = JNull, postalCode = JStr '''',
                     country = JStr ''POLSKA''\<rparr>,
          capital = None,
          shareholders = [],
          representation = \<lparr>organName = zarzad, rep_method = brak_danych, members = []\<rparr>,
          mainActivity = [],
          otherActivities = [],
          registrationDate = own_prop 
              [(''numerKRS'', JStr ''0000012345''),
              (''dataRejestracjiWKRS'', JStr ''01.02.2003''),
              (''stanZDnia'', JStr ''04.05.2026'')] ''dataRejestracjiWKRS'',
          lastUpdate = own_prop 
              [(''numerKRS'', JStr ''0000012345''),
              (''dataRejestracjiWKRS'', JStr ''01.02.2003''),
              (''stanZDnia'', JStr ''04.05.2026'')] ''stanZDnia'',
          dataTimestamp = or_else (own_prop 
              [(''numerKRS'', JStr ''0000012345''),
              (''dataRejestracjiWKRS'', JStr ''01.02.2003''),
              (''stanZDnia'', JStr ''04.05.2026'')] ''dataCzasOdpisu'')
                                  (JStr ''2026-01-01T00:00:00.000Z'')\<rparr>"
    by (rule transform_defaults
          [of _ "[(''naglowekA'', JObj [(''numerKRS'', JStr ''0000012345''),
          (''dataRejestracjiWKRS'', JStr ''01.02.2003''),
          (''stanZDnia'', JStr ''04.05.2026'')]),
          (''dane'', JObj [(''dzial1'', JObj [(''danePodmiotu'', JObj [(''formaPrawna'', JStr ''SP. Z O.O.''),
          (''nazwa'', JStr ''ACME'')])])])]"
              _ "[(''dzial1'', JObj [(''danePodmiotu'', JObj [(''formaPrawna'', JStr ''SP. Z O.O.''),
          (''nazwa'', JStr ''ACME'')])])]"
              "[(''danePodmiotu'', JObj [(''formaPrawna'', JStr ''SP. Z O.O.''),
          (''nazwa'', JStr ''ACME'')])]"])
       (simp_all add: own_prop_def)
  then show ?thesis
    by (simp add: own_prop_def or_else_def zarzad_def brak_danych_def)
qed

lemma count_replace_char:
  "count_list (replace [a] [b] w) a = (if a = b then count_list w a else count_list w a - 1)"
  by (induction w) auto

lemma count_list_mem: "(x \<in> set xs) = (0 < count_list xs x)"
  by (induction xs) auto

lemma capital_of_Some:
  assumes "capital_of d1 = Inr (Some c)"
  shows "\<exists>w. optProp (optProp (optProp d1 ''kapital'') ''wysokoscKapitaluZakladowego'')
                     ''wartosc'' = JStr w
            \<and> cap_value c = replace '','' ''.'' w"
proof -
  from assms obtain kapital where k: "getProp d1 ''kapital'' = Inr kapital"
    and rest: "(if truthy (optProp kapital ''wysokoscKapitaluZakladowego'')
     then then_do (getProp kapital ''wysokoscKapitaluZakladowego'') (\<lambda>wys.
          then_do (getProp wys ''wartosc'') (\<lambda>wartosc.
          then_do (replace_comma wartosc) (\<lambda>v.
          then_do (getProp wys ''waluta'') (\<lambda>waluta.
          Inr (Some \<lparr>cap_value = v, currency = waluta\<rparr>)))))
     else Inr None) = Inr (Some c)"
    unfolding capital_of_def by (rule then_do_InrE)
  from rest have t: "truthy (optProp kapital ''wysokoscKapitaluZakladowego'')"
    by (auto split: if_splits)
  with rest obtain wys wartosc v waluta where
    g: "getProp kapital ''wysokoscKapitaluZakladowego'' = Inr wys"
       "getProp wys ''wartosc'' = Inr wartosc"
    and r: "replace_comma wartosc = Inr v"
    and c: "c = \<lparr>cap_value = v, currency = waluta\<rparr>"
    by (auto elim!: then_do_InrE)
  from r obtain w where w: "wartosc = JStr w" "v = replace '','' ''.'' w"
    by (cases wartosc) auto
  from k g have "wartosc =
      optProp (optProp (optProp d1 ''kapital'') ''wysokoscKapitaluZakladowego'') ''wartosc''"
    by (auto dest!: getProp_Inr)
  with w c show ?thesis by simp
qed

lemma transformResponse_capital:
  assumes "transformResponse stamp raw = Inr d"
  shows "capital_of (optProp (optProp (optProp raw ''odpis'') ''dane'') ''dzial1'')
           = Inr (capital d)"
  using assms unfolding transformResponse_def
  by (elim then_do_InrE) (auto dest!: getProp_Inr)

text \<open>
  C8, as stated, fails: \<open>replace(",", ".")\<close> with a string pattern rewrites the first
  comma only. A capital amount with two commas keeps the second one.
\<close>

theorem capital_no_comma_remains_counterexample:
  "map_sum id capital (transformResponse ''2026-01-01T00:00:00.000Z''
     (JObj [(''odpis'', JObj [(''naglowekA'', JObj [(''numerKRS'', JStr ''0000012345''),
       (''dataRejestracjiWKRS'', JStr ''01.02.2003''),
       (''stanZDnia'', JStr ''04.05.2026'')]),
       (''dane'', JObj [(''dzial1'', JObj [(''danePodmiotu'', JObj [(''formaPrawna'', JStr ''SP. Z O.O.''),
       (''nazwa'', JStr ''ACME'')]),
       (''kapital'', JObj [(''wysokoscKapitaluZakladowego'', JObj [(''wartosc'', JStr ''1,000,50''),
       (''waluta'', JStr ''PLN'')])])])])])]))
   = Inr (Some \<lparr>cap_value = ''1.000,50'', currency = JStr ''PLN''\<rparr>)
   \<and> CHR '','' \<in> set ''1.000,50''"
  by (simp add: transform_defs)

text \<open>
  C8, amended. Whenever the transformation returns a capital, the payload's amount is a
  string and the returned value is that string with its first comma, if any, replaced by
  a dot. A comma remains in the value exactly when the amount held two commas or more;
  for an amount with at most one comma (one decimal separator) none remains.
\<close>

theorem capital_first_comma_replaced:
  assumes "transformResponse stamp raw = Inr d" and "capital d = Some c"
  shows "\<exists>w. wartosc_of raw = JStr w \<and> cap_value c = replace '','' ''.'' w
           \<and> (CHR '','' \<in> set (cap_value c) \<longleftrightarrow> 2 \<le> count_list w (CHR '',''))"
proof -
  from transformResponse_capital [OF assms(1)] assms(2)
  have "capital_of (optProp (optProp (optProp raw ''odpis'') ''dane'') ''dzial1'')
          = Inr (Some c)"
    by simp
  from capital_of_Some [OF this] obtain w where
    w: "wartosc_of raw = JStr w" "cap_value c = replace '','' ''.'' w"
    by (auto simp: wartosc_of_def)
  have "count_list (replace '','' ''.'' w) (CHR '','') = count_list w (CHR '','') - 1"
    by (simp add: count_replace_char)
  then have "(CHR '','' \<in> set (replace '','' ''.'' w)) = (2 \<le> count_list w (CHR '',''))"
    by (simp add: count_list_mem) arith
  with w show ?thesis by simp
qed

text \<open>
  Witness for the amended C8: the amount \<open>5000,00\<close>, as the registry writes it, comes
  out as \<open>5000.00\<close>.
\<close>

theorem capital_first_comma_replaced_witness:
  "transformResponse ''2026-01-01T00:00:00.000Z''
     (JObj [(''odpis'', JObj [(''naglowekA'', JObj [(''numerKRS'', JStr ''0000012345''),
       (''dataRejestracjiWKRS'', JStr ''01.02.2003''),
       (''stanZDnia'', JStr ''04.05.2026'')]),
       (''dane'', JObj [(''dzial1'', JObj [(''danePodmiotu'', JObj [(''formaPrawna'', JStr ''SP. Z O.O.''),
       (''nazwa'', JStr ''ACME'')]),
       (''kapital'', JObj [(''wysokoscKapitaluZakladowego'', JObj [(''wartosc'', JStr ''5000,00''),
       (''waluta'', JStr ''PLN'')])])])])])])
   = Inr \<lparr>name = JStr ''ACME'', krs = JStr ''0000012345'', nip = JNull, regon = JNull,
          legalForm = JStr ''SP. Z O.O.'',
          address = \<lparr>city = JStr [], voivodeship = JStr [], street = JStr [],
                     building = JStr [], unit = JNull, postalCode = JStr [],
                     country = JStr ''POLSKA''\<rparr>,
          capital = Some \<lparr>cap_value = ''5000.00'', currency = JStr ''PLN''\<rparr>,
          shareholders = [],
          representation = \<lparr>organName = JStr (''ZARZ'' @ [CHR 0xC4, CHR 0x84] @ ''D''),
                            rep_method = JStr ''Brak danych'', members = []\<rparr>,
          mainActivity = [], otherActivities = [],
          registrationDate = JStr ''01.02.2003'', lastUpdate = JStr ''04.05.2026'',
          dataTimestamp = JStr ''2026-01-01T00:00:00.000Z''\<rparr>
   \<and> (\<exists>w. wartosc_of
         (JObj [(''odpis'', JObj [(''naglowekA'', JObj [(''numerKRS'', JStr ''0000012345''),
         (''dataRejestracjiWKRS'', JStr ''01.02.2003''),
         (''stanZDnia'', JStr ''04.05.2026'')]),
         (''dane'', JObj [(''dzial1'', JObj [(''danePodmiotu'', JObj [(''formaPrawna'', JStr ''SP. Z O.O.''),
         (''nazwa'', JStr ''ACME'')]),
         (''kapital'', JObj [(''wysokoscKapitaluZakladowego'', JObj [(''wartosc'', JStr ''5000,00''),
         (''waluta'', JStr ''PLN'')])])])])])])
         = JStr w
       \<and> ''5000.00'' = replace '','' ''.'' w
       \<and> (CHR '','' \<in> set ''5000.00'' \<longleftrightarrow> 2 \<le> count_list w (CHR '','')))"
proof -
  have run: "transformResponse ''2026-01-01T00:00:00.000Z''
     (JObj [(''odpis'', JObj [(''naglowekA'', JObj [(''numerKRS'', JStr ''0000012345''),
       (''dataRejestracjiWKRS'', JStr ''01.02.2003''),
       (''stanZDnia'', JStr ''04.05.2026'')]),
       (''dane'', JObj [(''dzial1'', JObj [(''danePodmiotu'', JObj [(''formaPrawna'', JStr ''SP. Z O.O.''),
       (''nazwa'', JStr ''ACME'')]),
       (''kapital'', JObj [(''wysokoscKapitaluZakladowego'', JObj [(''wartosc'', JStr ''5000,00''),
       (''waluta'', JStr ''PLN'')])])])])])])
   = Inr \<lparr>name = JStr ''ACME'', krs = JStr ''0000012345'', nip = JNull, regon = JNull,
          legalForm = JStr ''SP. Z O.O.'',
          address = \<lparr>city = JStr [], voivodeship = JStr [], street = JStr [],
                     building = JStr [], unit = JNull, postalCode = JStr [],
                     country = JStr ''POLSKA''\<rparr>,
          capital = Some \<lparr>cap_value = ''5000.00'', currency = JStr ''PLN''\<rparr>,
          shareholders = [],
          representation = \<lparr>organName = JStr (''ZARZ'' @ [CHR 0xC4, CHR 0x84] @ ''D''),
                            rep_method = JStr ''Brak danych'', members = []\<rparr>,
          mainActivity = [], otherActivities = [],
          registrationDate = JStr ''01.02.2003'', lastUpdate = JStr ''04.05.2026'',
          dataTimestamp = JStr ''2026-01-01T00:00:00.000Z''\<rparr>"
    by (simp add: transform_defs)
  from capital_first_comma_replaced
         [OF run, of "\<lparr>cap_value = ''5000.00'', currency = JStr ''PLN''\<rparr>"]
  show ?thesis using run by simp
qed

section \<open>Properties of the dispatcher\<close>

lemmas dispatch_defs =
  handleHTTPTransport_def route_def handleInitialize_def handlePing_def handleToolsList_def
  handleToolsCall_def handleResourcesList_def handleResourcesRead_def handlePromptsList_def
  jsonRpcResponse_def own_prop_def or_else_def

lemma route_bad_marker:
  "own_prop kvs ''jsonrpc'' \<noteq> JStr ''2.0'' \<Longrightarrow>
   route rt (JObj kvs) userId =
     Inr (jsonRpcResponse (own_prop kvs ''id'') JNull (Some (''-32600'', ''Invalid Request'')))"
  by (simp add: route_def)

lemma route_unknown_method:
  "own_prop kvs ''jsonrpc'' = JStr ''2.0'' \<Longrightarrow> own_prop kvs ''method'' = JStr m \<Longrightarrow>
   m \<notin> set supported_methods \<Longrightarrow>
   route rt (JObj kvs) userId =
     Inr (jsonRpcResponse (own_prop kvs ''id'') JNull
            (Some (''-32601'', ''Method not found: '' @ m)))"
  by (auto simp: route_def supported_methods_def)


lemma transport_Inr:
  "route rt req userId = Inr r \<Longrightarrow> handleHTTPTransport rt (Inr req) userId = Inr r"
  by (simp add: handleHTTPTransport_def)


text \<open>
  C4. An envelope object whose protocol marker is anything but the string \<open>2.0\<close> (so the
  marker \<open>1.0\<close> with the method \<open>ping\<close>) is answered with the error -32600 and the
  request's id. With the marker \<open>2.0\<close> and a method name outside the seven supported
  ones the answer is the error -32601, whose message ends in that name. The body
  \<open>{"jsonrpc":"2.0","id":3,"method":"ping"}\<close> is answered with exactly
  \<open>{"jsonrpc":"2.0","id":3,"result":{}}\<close>.
\<close>

theorem dispatcher_marker_method_ping:
  "(own_prop kvs ''jsonrpc'' \<noteq> JStr ''2.0'' \<longrightarrow>
      handleHTTPTransport rt (Inr (JObj kvs)) userId =
        Inr (jsonRpcResponse (own_prop kvs ''id'') JNull
               (Some (''-32600'', ''Invalid Request''))))
   \<and> (own_prop kvs ''jsonrpc'' = JStr ''2.0'' \<and> own_prop kvs ''method'' = JStr m
        \<and> m \<notin> set supported_methods \<longrightarrow>
      handleHTTPTransport rt (Inr (JObj kvs)) userId =
        Inr (jsonRpcResponse (own_prop kvs ''id'') JNull
               (Some (''-32601'', ''Method not found: '' @ m))))
   \<and> handleHTTPTransport rt
        (Inr (JObj [(''jsonrpc'', JStr ''2.0''), (''id'', JNum ''3''),
                    (''method'', JStr ''ping'')]))
        userId =
      Inr \<lparr>status = 200,
           body = JObj [(''jsonrpc'', JStr ''2.0''), (''id'', JNum ''3''),
                        (''result'', JObj [])]\<rparr>"
proof (intro conjI impI)
  assume "own_prop kvs ''jsonrpc'' \<noteq> JStr ''2.0''"
  then show "handleHTTPTransport rt (Inr (JObj kvs)) userId =
        Inr (jsonRpcResponse (own_prop kvs ''id'') JNull
               (Some (''-32600'', ''Invalid Request'')))"
    by (simp add: transport_Inr route_bad_marker)
next
  assume "own_prop kvs ''jsonrpc'' = JStr ''2.0'' \<and> own_prop kvs ''method'' = JStr m
        \<and> m \<notin> set supported_methods"
  then show "handleHTTPTransport rt (Inr (JObj kvs)) userId =
        Inr (jsonRpcResponse (own_prop kvs ''id'') JNull
               (Some (''-32601'', ''Method not found: '' @ m)))"
    by (simp add: transport_Inr route_unknown_method)
next
  show "handleHTTPTransport rt
        (Inr (JObj [(''jsonrpc'', JStr ''2.0''), (''id'', JNum ''3''),
                    (''method'', JStr ''ping'')]))
        userId =
      Inr \<lparr>status = 200,
           body = JObj [(''jsonrpc'', JStr ''2.0''), (''id'', JNum ''3''),
                        (''result'', JObj [])]\<rparr>"
    by (simp add: dispatch_defs)
qed

text \<open>
  Witness for C4: the spec's two error bodies,
  \<open>{"jsonrpc":"1.0","id":1,"method":"ping"}\<close> and
  \<open>{"jsonrpc":"2.0","id":2,"method":"no-such-method"}\<close>.
\<close>

theorem dispatcher_marker_method_ping_witness:
  "handleHTTPTransport
     \<lparr>loadHtml = Inr ''<html></html>'', nowIso = ''2026-01-01T00:00:00.000Z'',
      stringify = (\<lambda>v. [])\<rparr>
     (Inr (JObj [(''jsonrpc'', JStr ''1.0''), (''id'', JNum ''1''), (''method'', JStr ''ping'')]))
     ''u1'' =
   Inr \<lparr>status = 200,
        body = JObj [(''jsonrpc'', JStr ''2.0''), (''id'', JNum ''1''),
                     (''error'', JObj [(''code'', JNum ''-32600''),
                                       (''message'', JStr ''Invalid Request'')])]\<rparr>
   \<and> handleHTTPTransport
     \<lparr>loadHtml = Inr ''<html></html>'', nowIso = ''2026-01-01T00:00:00.000Z'',
      stringify = (\<lambda>v. [])\<rparr>
     (Inr (JObj [(''jsonrpc'', JStr ''2.0''), (''id'', JNum ''2''),
                 (''method'', JStr ''no-such-method'')]))
     ''u1'' =
   Inr \<lparr>status = 200,
        body = JObj [(''jsonrpc'', JStr ''2.0''), (''id'', JNum ''2''),
                     (''error'', JObj [(''code'', JNum ''-32601''),
                        (''message'', JStr ''Method not found: no-such-method'')])]\<rparr>"
  using dispatcher_marker_method_ping
          [of "[(''jsonrpc'', JStr ''1.0''), (''id'', JNum ''1''), (''method'', JStr ''ping'')]"
              "\<lparr>loadHtml = Inr ''<html></html>'', nowIso = ''2026-01-01T00:00:00.000Z'',
      stringify = (\<lambda>v. [])\<rparr>"
              "''u1''" "''ping''"]
        dispatcher_marker_method_ping
          [of "[(''jsonrpc'', JStr ''2.0''), (''id'', JNum ''2''),
                (''method'', JStr ''no-such-method'')]"
              "\<lparr>loadHtml = Inr ''<html></html>'', nowIso = ''2026-01-01T00:00:00.000Z'',
      stringify = (\<lambda>v. [])\<rparr>"
              "''u1''" "''no-such-method''"]
  by (simp add: own_prop_def jsonRpcResponse_def supported_methods_def)

text \<open>
  C5 does not hold of the code. Both requests below parse as well-formed envelopes with
  the marker \<open>2.0\<close> and a supported method, and both are answered with -32700 and the
  id \<open>"error"\<close>: the handlers run inside the \<open>try\<close> whose \<open>catch\<close> reports a parse
  error. In the first, \<open>tools/call\<close> names a tool by an object with a \<open>toString\<close>
  property, and the template literal of the \<open>default\<close> case raises; in the second,
  \<open>resources/read\<close> asks for the widget while loading the asset fails.
\<close>

theorem handler_failure_reported_as_parse_error:
  "handleHTTPTransport
     \<lparr>loadHtml = Inr ''<html></html>'', nowIso = ''2026-01-01T00:00:00.000Z'',
      stringify = (\<lambda>v. [])\<rparr>
     (Inr (JObj [(''jsonrpc'', JStr ''2.0''), (''id'', JNum ''8''),
                 (''method'', JStr ''tools/call''),
                 (''params'', JObj [(''name'', JObj [(''toString'', JNum ''1'')])])]))
     ''u1'' =
   Inr \<lparr>status = 200,
        body = JObj [(''jsonrpc'', JStr ''2.0''), (''id'', JStr ''error''),
                     (''error'', JObj [(''code'', JNum ''-32700''),
                        (''message'',
                         JStr ''Parse error: Cannot convert object to primitive value'')])]\<rparr>
   \<and> handleHTTPTransport
     \<lparr>loadHtml = Inl (Error ''Asset not found: /widget.html''),
      nowIso = ''2026-01-01T00:00:00.000Z'', stringify = (\<lambda>v. [])\<rparr>
     (Inr (JObj [(''jsonrpc'', JStr ''2.0''), (''id'', JNum ''7''),
                 (''method'', JStr ''resources/read''),
                 (''params'', JObj [(''uri'', JStr ''ui://{{SERVER_ID}}/widget'')])]))
     ''u1'' =
   Inr \<lparr>status = 200,
        body = JObj [(''jsonrpc'', JStr ''2.0''), (''id'', JStr ''error''),
                     (''error'', JObj [(''code'', JNum ''-32700''),
                        (''message'',
                         JStr ''Parse error: Asset not found: /widget.html'')])]\<rparr>"
  by (simp add: dispatch_defs widget_uri_def not_primitive_def)



section \<open>Properties of the registry client and its tool handler\<close>

lemma kv_get_put_same:
  "kv_get now (kv_put t0 kv key v n) key = (if now < t0 + n then Some v else None)"
  by (simp add: kv_get_def kv_put_def)

lemma kv_get_put_other:
  "key' \<noteq> key \<Longrightarrow> kv_get now (kv_put t0 kv key v n) key' = kv_get now kv key'"
  by (simp add: kv_get_def kv_put_def)

lemma from_registry_fst_cong:
  "fst (from_registry env kv k t) = fst (from_registry env kv' k t)"
  by (auto simp: from_registry_def split: fetch_outcome.splits sum.splits)

lemma from_registry_snd:
  "snd (from_registry env kv k t) = kv \<and> snd (from_registry env kv' k t) = kv'
   \<or> (\<exists>v. snd (from_registry env kv k t)
             = kv_put (clock env) kv (cacheKey k t) v CACHE_TTL_SECONDS
          \<and> snd (from_registry env kv' k t)
             = kv_put (clock env) kv' (cacheKey k t) v CACHE_TTL_SECONDS)"
  by (auto simp: from_registry_def split: fetch_outcome.splits sum.splits)

lemma getCompany_miss:
  "kv_get (clock env) kv (cacheKey k t) = None \<Longrightarrow>
   getCompany env kv k t = from_registry env kv k t"
  by (simp add: getCompany_def)

lemma getCompany_stores:
  assumes "kv_get (clock env) kv (cacheKey k t) = None"
    and "fetch env (registry_url k t) = Fetch_response st (Inr raw)"
    and "response_ok st"
    and "transformResponse (clockIso env) raw = Inr d"
  shows "getCompany env kv k t =
           (Inr d, kv_put (clock env) kv (cacheKey k t) (serialize env d) CACHE_TTL_SECONDS)"
  using assms by (simp add: getCompany_miss from_registry_def)

lemma lookup_in_window:
  assumes "clock env < t0 + CACHE_TTL_SECONDS"
    and "v \<noteq> []"
  shows "getCompany env (kv_put t0 kv (cacheKey k t) v CACHE_TTL_SECONDS) k t
           = (parse env v, kv_put t0 kv (cacheKey k t) v CACHE_TTL_SECONDS)"
  using assms by (simp add: getCompany_def kv_get_put_same)

lemma lookup_after_window:
  assumes late: "t0 + CACHE_TTL_SECONDS \<le> clock env"
    and kv1: "kv1 = kv_put t0 kv0 (cacheKey k t) v CACHE_TTL_SECONDS"
  shows "fst (getCompany env kv1 k t) = fst (getCompany env (kv0(cacheKey k t := None)) k t)"
    and "clock env \<le> later \<Longrightarrow>
         kv_get later (snd (getCompany env kv1 k t)) key
           = kv_get later (snd (getCompany env (kv0(cacheKey k t := None)) k t)) key"
proof -
  let ?kv2 = "kv0(cacheKey k t := None)"
  have "kv_get (clock env) kv1 (cacheKey k t) = None"
    using late kv1 by (simp add: kv_get_put_same)
  then have g1: "getCompany env kv1 k t = from_registry env kv1 k t"
    by (rule getCompany_miss)
  have "kv_get (clock env) ?kv2 (cacheKey k t) = None"
    by (simp add: kv_get_def)
  then have g2: "getCompany env ?kv2 k t = from_registry env ?kv2 k t"
    by (rule getCompany_miss)
  show "fst (getCompany env kv1 k t) = fst (getCompany env ?kv2 k t)"
    unfolding g1 g2 by (rule from_registry_fst_cong)
  assume later: "clock env \<le> later"
  have base: "kv_get later kv1 key = kv_get later ?kv2 key"
    using late later kv1 by (simp add: kv_get_def kv_put_def)
  from from_registry_snd [of env kv1 k t ?kv2]
  show "kv_get later (snd (getCompany env kv1 k t)) key
        = kv_get later (snd (getCompany env ?kv2 k t)) key"
    unfolding g1 g2
  proof (elim disjE conjE exE)
    assume "snd (from_registry env kv1 k t) = kv1" "snd (from_registry env ?kv2 k t) = ?kv2"
    with base show "kv_get later (snd (from_registry env kv1 k t)) key
        = kv_get later (snd (from_registry env ?kv2 k t)) key" by simp
  next
    fix w
    assume "snd (from_registry env kv1 k t)
              = kv_put (clock env) kv1 (cacheKey k t) w CACHE_TTL_SECONDS"
      "snd (from_registry env ?kv2 k t)
              = kv_put (clock env) ?kv2 (cacheKey k t) w CACHE_TTL_SECONDS"
    with base show "kv_get later (snd (from_registry env kv1 k t)) key
        = kv_get later (snd (from_registry env ?kv2 k t)) key"
      by (cases "key = cacheKey k t") (simp_all add: kv_get_put_same kv_get_put_other)
  qed
qed





text \<open>
  C2. Let a call of \<open>getCompany\<close> miss the cache, fetch a payload and transform it to
  the record \<open>d\<close>; it stores the record's text for 3600 seconds. A later call for the
  same key, made while the clock is strictly inside that window, finds the stored text
  and returns a record equal to \<open>d\<close> without consulting the registry, provided the
  stored text is not empty and parses back to \<open>d\<close>. A call made once the window has elapsed
  finds nothing, and its outcome and every later lookup in the cache it leaves are the
  same as if the key had never been cached.
\<close>

theorem response_cache_round_trip:
  assumes "kv_get (clock env0) kv0 (cacheKey k t) = None"
    and "fetch env0 (registry_url k t) = Fetch_response st (Inr raw)"
    and "response_ok st"
    and "transformResponse (clockIso env0) raw = Inr d"
    and "serialize env0 d \<noteq> []"
    and "parse env (serialize env0 d) = Inr d"
  shows "\<exists>kv1. getCompany env0 kv0 k t = (Inr d, kv1)
     \<and> (clock env < clock env0 + CACHE_TTL_SECONDS \<longrightarrow>
          kv_get (clock env) kv1 (cacheKey k t) = Some (serialize env0 d)
        \<and> getCompany env kv1 k t = (Inr d, kv1))
     \<and> (clock env0 + CACHE_TTL_SECONDS \<le> clock env \<longrightarrow>
          kv_get (clock env) kv1 (cacheKey k t) = None
        \<and> fst (getCompany env kv1 k t)
            = fst (getCompany env (kv0(cacheKey k t := None)) k t)
        \<and> (\<forall>later key. clock env \<le> later \<longrightarrow>
              kv_get later (snd (getCompany env kv1 k t)) key
              = kv_get later (snd (getCompany env (kv0(cacheKey k t := None)) k t)) key))"
proof -
  let ?kv1 = "kv_put (clock env0) kv0 (cacheKey k t) (serialize env0 d) CACHE_TTL_SECONDS"
  have stored: "getCompany env0 kv0 k t = (Inr d, ?kv1)"
    using assms(1-4) by (rule getCompany_stores)
  have inside: "clock env < clock env0 + CACHE_TTL_SECONDS \<longrightarrow>
          kv_get (clock env) ?kv1 (cacheKey k t) = Some (serialize env0 d)
        \<and> getCompany env ?kv1 k t = (Inr d, ?kv1)"
    using assms(5,6) by (simp add: lookup_in_window kv_get_put_same)
  have after: "clock env0 + CACHE_TTL_SECONDS \<le> clock env \<longrightarrow>
          kv_get (clock env) ?kv1 (cacheKey k t) = None
        \<and> fst (getCompany env ?kv1 k t)
            = fst (getCompany env (kv0(cacheKey k t := None)) k t)
        \<and> (\<forall>later key. clock env \<le> later \<longrightarrow>
              kv_get later (snd (getCompany env ?kv1 k t)) key
              = kv_get later (snd (getCompany env (kv0(cacheKey k t := None)) k t)) key)"
    using lookup_after_window [of "clock env0" env ?kv1 kv0 k t "serialize env0 d"]
    by (simp add: kv_get_put_same)
  from stored inside after show ?thesis by blast
qed

text \<open>
  Witness for C2: a first call at second 1000 fetches and stores the record; a call at
  second 2000, with the registry down, answers from the cache; a call at second 5000,
  past the 3600 seconds, finds nothing and reports the registry as unavailable.
\<close>

theorem response_cache_round_trip_witness:
  "\<exists>d. fst (getCompany
             \<lparr>clock = 1000, clockIso = ''2026-01-01T00:00:00.000Z'',
              fetch = (\<lambda>url. Fetch_response 200 (Inr (JObj [(''odpis'', JObj [(''naglowekA'', JObj [(''numerKRS'', JStr ''0000012345''),
                (''dataRejestracjiWKRS'', JStr ''01.02.2003''),
                (''stanZDnia'', JStr ''04.05.2026'')]),
                (''dane'', JObj [(''dzial1'', JObj [(''danePodmiotu'', JObj [(''formaPrawna'', JStr ''SP. Z O.O.''),
                (''nazwa'', JStr ''ACME'')])])])])]))),
              serialize = (\<lambda>d. ''{}''), parse = (\<lambda>s. Inl (Error ''not cached''))\<rparr>
             Map.empty ''0000012345'' Aktualny) = Inr d
      \<and> fst (getCompany
             \<lparr>clock = 2000, clockIso = ''2026-01-01T00:00:00.000Z'', fetch = (\<lambda>url. Fetch_failed),
              serialize = (\<lambda>d. ''{}''),
              parse = (\<lambda>s. transformResponse ''2026-01-01T00:00:00.000Z'' (JObj [(''odpis'', JObj [(''naglowekA'', JObj [(''numerKRS'', JStr ''0000012345''),
                (''dataRejestracjiWKRS'', JStr ''01.02.2003''),
                (''stanZDnia'', JStr ''04.05.2026'')]),
                (''dane'', JObj [(''dzial1'', JObj [(''danePodmiotu'', JObj [(''formaPrawna'', JStr ''SP. Z O.O.''),
                (''nazwa'', JStr ''ACME'')])])])])]))\<rparr>
             (snd (getCompany
                \<lparr>clock = 1000, clockIso = ''2026-01-01T00:00:00.000Z'',
                 fetch = (\<lambda>url. Fetch_response 200 (Inr (JObj [(''odpis'', JObj [(''naglowekA'', JObj [(''numerKRS'', JStr ''0000012345''),
                (''dataRejestracjiWKRS'', JStr ''01.02.2003''),
                (''stanZDnia'', JStr ''04.05.2026'')]),
                (''dane'', JObj [(''dzial1'', JObj [(''danePodmiotu'', JObj [(''formaPrawna'', JStr ''SP. Z O.O.''),
                (''nazwa'', JStr ''ACME'')])])])])]))),
                 serialize = (\<lambda>d. ''{}''), parse = (\<lambda>s. Inl (Error ''not cached''))\<rparr>
                Map.empty ''0000012345'' Aktualny))
             ''0000012345'' Aktualny) = Inr d
      \<and> fst (getCompany
             \<lparr>clock = 5000, clockIso = ''2026-01-01T00:00:00.000Z'', fetch = (\<lambda>url. Fetch_failed),
              serialize = (\<lambda>d. ''{}''),
              parse = (\<lambda>s. transformResponse ''2026-01-01T00:00:00.000Z'' (JObj [(''odpis'', JObj [(''naglowekA'', JObj [(''numerKRS'', JStr ''0000012345''),
                (''dataRejestracjiWKRS'', JStr ''01.02.2003''),
                (''stanZDnia'', JStr ''04.05.2026'')]),
                (''dane'', JObj [(''dzial1'', JObj [(''danePodmiotu'', JObj [(''formaPrawna'', JStr ''SP. Z O.O.''),
                (''nazwa'', JStr ''ACME'')])])])])]))\<rparr>
             (snd (getCompany
                \<lparr>clock = 1000, clockIso = ''2026-01-01T00:00:00.000Z'',
                 fetch = (\<lambda>url. Fetch_response 200 (Inr (JObj [(''odpis'', JObj [(''naglowekA'', JObj [(''numerKRS'', JStr ''0000012345''),
                (''dataRejestracjiWKRS'', JStr ''01.02.2003''),
                (''stanZDnia'', JStr ''04.05.2026'')]),
                (''dane'', JObj [(''dzial1'', JObj [(''danePodmiotu'', JObj [(''formaPrawna'', JStr ''SP. Z O.O.''),
                (''nazwa'', JStr ''ACME'')])])])])]))),
                 serialize = (\<lambda>d. ''{}''), parse = (\<lambda>s. Inl (Error ''not cached''))\<rparr>
                Map.empty ''0000012345'' Aktualny))
             ''0000012345'' Aktualny)
          = Inl (Error ''KRS API unavailable - please try again later'')"
proof -
  let ?P = "JObj [(''odpis'', JObj [(''naglowekA'', JObj [(''numerKRS'', JStr ''0000012345''),
                (''dataRejestracjiWKRS'', JStr ''01.02.2003''),
                (''stanZDnia'', JStr ''04.05.2026'')]),
                (''dane'', JObj [(''dzial1'', JObj [(''danePodmiotu'', JObj [(''formaPrawna'', JStr ''SP. Z O.O.''),
                (''nazwa'', JStr ''ACME'')])])])])]"
  let ?E0 = "\<lparr>clock = 1000, clockIso = ''2026-01-01T00:00:00.000Z'',
              fetch = (\<lambda>url. Fetch_response 200 (Inr ?P)),
              serialize = (\<lambda>d. ''{}''), parse = (\<lambda>s. Inl (Error ''not cached''))\<rparr>"
  let ?E1 = "\<lparr>clock = 2000, clockIso = ''2026-01-01T00:00:00.000Z'', fetch = (\<lambda>url. Fetch_failed),
              serialize = (\<lambda>d. ''{}''), parse = (\<lambda>s. transformResponse ''2026-01-01T00:00:00.000Z'' ?P)\<rparr>"
  let ?E2 = "\<lparr>clock = 5000, clockIso = ''2026-01-01T00:00:00.000Z'', fetch = (\<lambda>url. Fetch_failed),
              serialize = (\<lambda>d. ''{}''), parse = (\<lambda>s. transformResponse ''2026-01-01T00:00:00.000Z'' ?P)\<rparr>"
  have "\<exists>d. transformResponse ''2026-01-01T00:00:00.000Z'' ?P = Inr d"
    by (simp add: transform_defs)
  then obtain d where d: "transformResponse ''2026-01-01T00:00:00.000Z'' ?P = Inr d" ..
  have h1: "kv_get (clock ?E0) Map.empty (cacheKey ''0000012345'' Aktualny) = None"
    by (simp add: kv_get_def)
  have h2: "fetch ?E0 (registry_url ''0000012345'' Aktualny) = Fetch_response 200 (Inr ?P)"
    by simp
  have h3: "response_ok 200"
    by (simp add: response_ok_def)
  have h4: "transformResponse (clockIso ?E0) ?P = Inr d"
    using d by simp
  have h5: "serialize ?E0 d \<noteq> []"
    by simp
  have p1: "parse ?E1 (serialize ?E0 d) = Inr d"
    using d by simp
  have p2: "parse ?E2 (serialize ?E0 d) = Inr d"
    using d by simp
  from response_cache_round_trip [OF h1 h2 h3 h4 h5 p1]
  have one: "fst (getCompany ?E0 Map.empty ''0000012345'' Aktualny) = Inr d"
    and two: "fst (getCompany ?E1 (snd (getCompany ?E0 Map.empty ''0000012345'' Aktualny))
                ''0000012345'' Aktualny) = Inr d"
    by (auto simp: CACHE_TTL_SECONDS_def)
  from response_cache_round_trip [OF h1 h2 h3 h4 h5 p2]
  have "fst (getCompany ?E2 (snd (getCompany ?E0 Map.empty ''0000012345'' Aktualny))
                ''0000012345'' Aktualny)
        = fst (getCompany ?E2 (Map.empty(cacheKey ''0000012345'' Aktualny := None))
                ''0000012345'' Aktualny)"
    by (auto simp: CACHE_TTL_SECONDS_def)
  also have "\<dots> = Inl (Error ''KRS API unavailable - please try again later'')"
    by (simp add: getCompany_def from_registry_def kv_get_def)
  finally show ?thesis using one two by blast
qed






section \<open>Properties of the key-based lane\<close>

lemma replace_absent:
  "pat \<noteq> [] \<Longrightarrow> \<not> sublist pat s \<Longrightarrow> replace pat rep s = s"
proof (induction s)
  case Nil
  then show ?case by simp
next
  case (Cons c cs)
  from Cons.prems(2) have "\<not> prefix pat (c # cs)" and "\<not> sublist pat cs"
    by (auto simp: sublist_Cons_right)
  with Cons show ?case by simp
qed

lemma replace_at_front: "replace pat rep (pat @ s) = rep @ s"
proof (cases "pat @ s")
  case Nil
  then show ?thesis by simp
next
  case (Cons c cs)
  have "prefix pat (pat @ s)" by simp
  then have "replace pat rep (c # cs) = rep @ drop (length pat) (c # cs)"
    unfolding Cons by simp
  then show ?thesis
    unfolding Cons [symmetric] by simp
qed

lemma replace_keeps_wtyk:
  assumes "prefix ''wtyk_'' h"
  shows "prefix ''wtyk_'' (replace ''Bearer '' '''' h)"
proof -
  from assms obtain r where "h = ''wtyk_'' @ r"
    by (auto simp: prefix_def)
  then show ?thesis by simp
qed

text \<open>
  C7. When the request has no \<open>Authorization\<close> header, or the header is empty once
  \<open>Bearer \<close> is stripped, or the credential check returns nothing for it, the handler
  answers 401. The server cache it returns is the one it was given, entry for entry and
  timestamp for timestamp; the only log line is the failed attempt. The answer is the
  same whatever the request body, the path, the clock and the runtime are: nothing of the
  dispatcher is consulted.
\<close>

theorem unauthorized_before_cache_and_dispatch:
  assumes "case apiKey_of (authorization req) of
             None \<Rightarrow> True
           | Some k \<Rightarrow> k = [] \<or> validateApiKey k = Inr None"
  shows "(handleApiKeyRequest validateApiKey rt now req pathname c
            = (Inr (jsonError ''Missing Authorization header'' 401), c, [])
          \<or> handleApiKeyRequest validateApiKey rt now req pathname c
            = (Inr (jsonError ''Invalid or expired API key'' 401), c, [Auth_attempt_failed]))
       \<and> handleApiKeyRequest validateApiKey rt now req pathname c
           = handleApiKeyRequest validateApiKey rt' now' (req\<lparr>json := j'\<rparr>) pathname' c"
  using assms
  by (auto simp: handleApiKeyRequest_def split: option.splits)

text \<open>
  Witness for C7: a request without the header, and one whose key the check rejects,
  against a cache that holds one session.
\<close>

theorem unauthorized_before_cache_and_dispatch_witness:
  "handleApiKeyRequest (\<lambda>k. Inr None)
     \<lparr>loadHtml = Inr ''<html></html>'', nowIso = ''2026-01-01T00:00:00.000Z'',
      stringify = (\<lambda>v. [])\<rparr>
     5000
     \<lparr>authorization = None,
      json = Inr (JObj [(''jsonrpc'', JStr ''2.0''), (''id'', JNum ''1''),
                        (''method'', JStr ''ping'')])\<rparr>
     ''/mcp''
     \<lparr>cache = [(''u1'', \<lparr>entry_value = McpServer ''u1'', lastAccessed = 1000\<rparr>)],
      maxSize = 100\<rparr>
   = (Inr \<lparr>status = 401, body = JObj [(''error'', JStr ''Missing Authorization header'')]\<rparr>,
      \<lparr>cache = [(''u1'', \<lparr>entry_value = McpServer ''u1'', lastAccessed = 1000\<rparr>)],
       maxSize = 100\<rparr>, [])
   \<and> handleApiKeyRequest (\<lambda>k. Inr None)
     \<lparr>loadHtml = Inr ''<html></html>'', nowIso = ''2026-01-01T00:00:00.000Z'',
      stringify = (\<lambda>v. [])\<rparr>
     5000
     \<lparr>authorization = Some ''Bearer wtyk_bad'',
      json = Inr (JObj [(''jsonrpc'', JStr ''2.0''), (''id'', JNum ''1''),
                        (''method'', JStr ''ping'')])\<rparr>
     ''/mcp''
     \<lparr>cache = [(''u1'', \<lparr>entry_value = McpServer ''u1'', lastAccessed = 1000\<rparr>)],
      maxSize = 100\<rparr>
   = (Inr \<lparr>status = 401, body = JObj [(''error'', JStr ''Invalid or expired API key'')]\<rparr>,
      \<lparr>cache = [(''u1'', \<lparr>entry_value = McpServer ''u1'', lastAccessed = 1000\<rparr>)],
       maxSize = 100\<rparr>, [Auth_attempt_failed])"
  using unauthorized_before_cache_and_dispatch
          [where req = "\<lparr>authorization = None,
                json = Inr (JObj [(''jsonrpc'', JStr ''2.0''), (''id'', JNum ''1''),
                                  (''method'', JStr ''ping'')])\<rparr>"
             and validateApiKey = "\<lambda>k. Inr None" and rt = "\<lparr>loadHtml = Inr ''<html></html>'', nowIso = ''2026-01-01T00:00:00.000Z'',
      stringify = (\<lambda>v. [])\<rparr>"
             and now = 5000
             and pathname = "''/mcp''"
             and c = "\<lparr>cache = [(''u1'', \<lparr>entry_value = McpServer ''u1'',
                                            lastAccessed = 1000\<rparr>)],
                      maxSize = 100\<rparr>"]
        unauthorized_before_cache_and_dispatch
          [where req = "\<lparr>authorization = Some ''Bearer wtyk_bad'',
                json = Inr (JObj [(''jsonrpc'', JStr ''2.0''), (''id'', JNum ''1''),
                                  (''method'', JStr ''ping'')])\<rparr>"
             and validateApiKey = "\<lambda>k. Inr None" and rt = "\<lparr>loadHtml = Inr ''<html></html>'', nowIso = ''2026-01-01T00:00:00.000Z'',
      stringify = (\<lambda>v. [])\<rparr>"
             and now = 5000
             and pathname = "''/mcp''"
             and c = "\<lparr>cache = [(''u1'', \<lparr>entry_value = McpServer ''u1'',
                                            lastAccessed = 1000\<rparr>)],
                      maxSize = 100\<rparr>"]
  by (simp add: apiKey_of_def jsonError_def handleApiKeyRequest_def)

text \<open>
  C10. Let the \<open>Authorization\<close> header be a token that starts with \<open>wtyk_\<close> and in
  which \<open>Bearer \<close> does not occur. On the path \<open>/mcp\<close> the request is taken for the
  key-based lane, the credential handed to the check is the header value itself, the
  request is handled exactly as the one with \<open>Bearer \<close> in front of the token, and the
  check is consulted at that value only.
\<close>

theorem bearer_prefix_optional:
  assumes "prefix ''wtyk_'' h" and "\<not> sublist ''Bearer '' h"
  shows "isApiKeyRequest ''/mcp'' (Some h)
       \<and> apiKey_of (Some h) = Some h
       \<and> apiKey_of (Some (''Bearer '' @ h)) = Some h
       \<and> handleApiKeyRequest validateApiKey rt now \<lparr>authorization = Some h, json = j\<rparr> pathname c
           = handleApiKeyRequest validateApiKey rt now
               \<lparr>authorization = Some (''Bearer '' @ h), json = j\<rparr> pathname c
       \<and> (validateApiKey h = validateApiKey' h \<longrightarrow>
            handleApiKeyRequest validateApiKey rt now \<lparr>authorization = Some h, json = j\<rparr>
              pathname c
            = handleApiKeyRequest validateApiKey' rt now \<lparr>authorization = Some h, json = j\<rparr>
                pathname c)"
proof -
  from assms(1) have ne: "h \<noteq> []" by auto
  have same: "replace ''Bearer '' '''' h = h"
    using assms(2) by (simp add: replace_absent)
  have front: "replace ''Bearer '' '''' (''Bearer '' @ h) = h"
    using replace_at_front [of "''Bearer ''" "''''" h] by simp
  have "isApiKeyRequest ''/mcp'' (Some h)"
    using ne assms(1) same by (simp add: isApiKeyRequest_def)
  moreover have k1: "apiKey_of (Some h) = Some h"
    using same by (simp add: apiKey_of_def)
  moreover have k2: "apiKey_of (Some (''Bearer '' @ h)) = Some h"
    using front by (simp add: apiKey_of_def del: append.simps)
  moreover have "handleApiKeyRequest validateApiKey rt now \<lparr>authorization = Some h, json = j\<rparr>
            pathname c
           = handleApiKeyRequest validateApiKey rt now
               \<lparr>authorization = Some (''Bearer '' @ h), json = j\<rparr> pathname c"
    by (simp only: handleApiKeyRequest_def k1 k2 request.simps)
  moreover have "validateApiKey h = validateApiKey' h \<longrightarrow>
            handleApiKeyRequest validateApiKey rt now \<lparr>authorization = Some h, json = j\<rparr> pathname c
            = handleApiKeyRequest validateApiKey' rt now \<lparr>authorization = Some h, json = j\<rparr>
                pathname c"
    using ne by (simp add: handleApiKeyRequest_def k1)
  ultimately show ?thesis by blast
qed

text \<open>
  Witness for C10: the header \<open>wtyk_abc123\<close> without any scheme, a check that accepts
  exactly this key, and a \<open>ping\<close>.
\<close>

theorem bearer_prefix_optional_witness:
  "prefix ''wtyk_'' ''wtyk_abc123'' \<and> \<not> sublist ''Bearer '' ''wtyk_abc123''
   \<and> isApiKeyRequest ''/mcp'' (Some ''wtyk_abc123'')
   \<and> apiKey_of (Some ''wtyk_abc123'') = Some ''wtyk_abc123''
   \<and> handleApiKeyRequest
        (\<lambda>k. if k = ''wtyk_abc123'' then Inr (Some (''u1'', ''u1@example.com'')) else Inr None)
        \<lparr>loadHtml = Inr ''<html></html>'', nowIso = ''2026-01-01T00:00:00.000Z'',
         stringify = (\<lambda>v. [])\<rparr>
        5000
        \<lparr>authorization = Some ''wtyk_abc123'',
         json = Inr (JObj [(''jsonrpc'', JStr ''2.0''), (''id'', JNum ''3''),
                           (''method'', JStr ''ping'')])\<rparr>
        ''/mcp'' serverCache
      = (Inr \<lparr>status = 200,
              body = JObj [(''jsonrpc'', JStr ''2.0''), (''id'', JNum ''3''),
                           (''result'', JObj [])]\<rparr>,
         \<lparr>cache = [(''u1'', \<lparr>entry_value = McpServer ''u1'', lastAccessed = 5000\<rparr>)],
          maxSize = 100\<rparr>,
         [Auth_attempt_ok ''u1@example.com'' ''u1''])"
proof -
  have p: "prefix ''wtyk_'' ''wtyk_abc123''" by simp
  have n: "\<not> sublist ''Bearer '' ''wtyk_abc123''" by (simp add: sublist_Cons_right)
  from bearer_prefix_optional [OF p n]
  show ?thesis using p n
    by (simp add: handleApiKeyRequest_def getOrCreateServer_def lru_get_def lru_set_def
          lru_has_def new_LRUCache_def serverCache_def MAX_CACHED_SERVERS_def dispatch_defs)
qed


end
